theory Spec2Isabelle
  imports Complex_Main
begin

section \<open>Python values, classes, objects and errors\<close>

text \<open>
  The module \<^verbatim>\<open>forte/data/ontology/core.py\<close> defines three classes, \<^verbatim>\<open>Entry\<close>,
  \<^verbatim>\<open>BaseLink\<close> and \<^verbatim>\<open>BaseGroup\<close>. Their instances are ordinary Python objects: a
  class and an instance dictionary (\<^verbatim>\<open>vars(self)\<close>). The methods read and write that
  dictionary by attribute name (the private names are mangled, \<^verbatim>\<open>self.__pack\<close> is the
  key \<^verbatim>\<open>_Entry__pack\<close>), so the model keeps the dictionary as a map from names to values.
\<close>

text \<open>
  A class is its name, the names of its proper ancestors (the rest of its
  \<^verbatim>\<open>__mro__\<close>) and the class attribute \<^verbatim>\<open>MemberType\<close>, which \<^verbatim>\<open>BaseGroup\<close> only
  annotates and a concrete group class sets (the name of the member class).
\<close>

datatype pytype =
  PyType (type_name: string) (type_bases: "string list") (type_MemberType: "string option")

text \<open>
  The values an attribute can hold. \<open>'f\<close> is the carrier of the floating-point numbers of
  an embedding; no operation of the module computes with them. A set is the list of its
  elements in iteration order (without repetition): \<^verbatim>\<open>tuple(s)\<close> and \<^verbatim>\<open>for m in s\<close>
  observe that order, \<^verbatim>\<open>==\<close> does not. \<open>VNdarray xs\<close> is a one-dimensional NumPy array
  of floats, \<open>VNdarray0 v\<close> the zero-dimensional array that
  \<^verbatim>\<open>np.array\<close> makes of a value that is no sequence, \<open>VPack r\<close> a reference to the
  container stored at \<open>r\<close>.
\<close>

datatype 'f pyval =
    VNone
  | VInt int
  | VStr string
  | VFloats "'f list"
  | VSet "'f pyval list"
  | VPack nat
  | VNdarray "'f list"
  | VNdarray0 "'f pyval"

record 'f obj =
  cls :: pytype
  attrs :: "string \<rightharpoonup> 'f pyval"

text \<open>
  The exceptions the module raises or lets through. \<open>AttributeError T a\<close> is Python's own
  failed attribute lookup (\<^verbatim>\<open>'T' object has no attribute 'a'\<close>);
  \<open>AttributeError_set_fields C a\<close> is the one \<^verbatim>\<open>set_fields\<close> raises, whose message names
  the class and the field; \<open>TypeError_members C T M\<close> is the one \<^verbatim>\<open>add_members\<close> raises,
  naming the group's class, its \<^verbatim>\<open>MemberType\<close> and the class of the member;
  \<open>ValueError_not_attached\<close> is the one \<^verbatim>\<open>get_members\<close> raises;
  \<open>EntryNotFound\<close> comes from the container's \<^verbatim>\<open>get_entry\<close>, and \<open>ValidationRejected\<close>
  stands for an exception that a container's \<^verbatim>\<open>validate\<close> raises; the module itself
  raises neither.
  \<open>NotModelled\<close> is no exception: it marks the one operation whose result is no value
  of the model, the iteration over a sequence of floats.
\<close>

datatype pyerr =
    AttributeError string string
  | AttributeError_set_fields pytype string
  | KeyError string
  | TypeError_members pytype string pytype
  | TypeError_unhashable string
  | TypeError_not_iterable string
  | ValueError_not_attached
  | ValidationRejected
  | EntryNotFound
  | NotModelled

fun py_type_name :: "'f pyval \<Rightarrow> string" where
  "py_type_name VNone = ''NoneType''"
| "py_type_name (VInt _) = ''int''"
| "py_type_name (VStr _) = ''str''"
| "py_type_name (VFloats _) = ''list''"
| "py_type_name (VSet _) = ''set''"
| "py_type_name (VPack _) = ''pack''"
| "py_type_name (VNdarray _) = ''numpy.ndarray''"
| "py_type_name (VNdarray0 _) = ''numpy.ndarray''"

text \<open>\<^verbatim>\<open>==\<close> on these values: two sets are equal when they have the same elements, whatever
  their iteration order; the other values are compared by structure. (NumPy compares arrays
  element by element; nothing in the module compares arrays.)\<close>

fun py_eq :: "'f pyval \<Rightarrow> 'f pyval \<Rightarrow> bool" where
  "py_eq (VSet xs) (VSet ys) = (set xs = set ys)"
| "py_eq a b = (a = b)"

fun hashable :: "'f pyval \<Rightarrow> bool" where
  "hashable VNone = True"
| "hashable (VInt _) = True"
| "hashable (VStr _) = True"
| "hashable (VPack _) = True"
| "hashable _ = False"

text \<open>
  \<^verbatim>\<open>s.add(x)\<close>. An element already present leaves the set as it is. Where a new element
  appears in the iteration order is decided by the hash table of the interpreter: \<open>place xs x\<close>
  is that order, accepted when it is a rearrangement of the old elements and \<open>x\<close>.
\<close>

definition pyset_add :: "('f pyval list \<Rightarrow> 'f pyval \<Rightarrow> 'f pyval list) \<Rightarrow> 'f pyval list \<Rightarrow> 'f pyval \<Rightarrow> 'f pyval list" where
  "pyset_add place xs x =
     (if x \<in> set xs then xs
      else if distinct (place xs x) \<and> set (place xs x) = insert x (set xs) then place xs x
      else xs @ [x])"

text \<open>The built-in \<^verbatim>\<open>hash\<close>: of a class (by identity), of a hashable value, and of a
  tuple, which CPython computes from the hashes of the items.\<close>

record 'f builtins =
  hash_type :: "pytype \<Rightarrow> int"
  hash_val :: "'f pyval \<Rightarrow> int"
  hash_tuple :: "int list \<Rightarrow> int"

text \<open>NumPy: \<^verbatim>\<open>np.empty(0)\<close>, \<^verbatim>\<open>np.array(v)\<close> and \<^verbatim>\<open>a.tolist()\<close>.\<close>

definition np_empty_0 :: "'f pyval" where
  "np_empty_0 = VNdarray []"

fun np_array :: "'f pyval \<Rightarrow> 'f pyval" where
  "np_array (VFloats xs) = VNdarray xs"
| "np_array (VNdarray xs) = VNdarray xs"
| "np_array (VNdarray0 v) = VNdarray0 v"
| "np_array v = VNdarray0 v"

fun tolist :: "'f pyval \<Rightarrow> pyerr + 'f pyval" where
  "tolist (VNdarray xs) = Inr (VFloats xs)"
| "tolist (VNdarray0 v) = Inr v"
| "tolist v = Inl (AttributeError (py_type_name v) ''tolist'')"

text \<open>Attribute access on an instance: \<^verbatim>\<open>self.name\<close> for a name that no class defines,
  and \<^verbatim>\<open>setattr(self, name, value)\<close>; \<^verbatim>\<open>d.pop(k)\<close> on a dictionary; \<^verbatim>\<open>isinstance\<close>.\<close>

definition py_getattr :: "'f obj \<Rightarrow> string \<Rightarrow> pyerr + 'f pyval" where
  "py_getattr self name =
     (case attrs self name of
        None \<Rightarrow> Inl (AttributeError (type_name (cls self)) name)
      | Some v \<Rightarrow> Inr v)"

definition py_setattr :: "'f obj \<Rightarrow> string \<Rightarrow> 'f pyval \<Rightarrow> 'f obj" where
  "py_setattr self name v = self\<lparr>attrs := (attrs self)(name \<mapsto> v)\<rparr>"

definition dict_pop :: "(string \<rightharpoonup> 'f pyval) \<Rightarrow> string \<Rightarrow> pyerr + (string \<rightharpoonup> 'f pyval)" where
  "dict_pop d k = (if k \<in> dom d then Inr (d(k := None)) else Inl (KeyError k))"

definition py_isinstance :: "'f obj \<Rightarrow> string \<Rightarrow> bool" where
  "py_isinstance x T = (T = type_name (cls x) \<or> T \<in> set (type_bases (cls x)))"

text \<open>\<^verbatim>\<open>cls.__new__(cls)\<close>: an instance with an empty dictionary, as unpickling makes one
  before it calls \<^verbatim>\<open>__setstate__\<close>.\<close>

definition py_new :: "pytype \<Rightarrow> 'f obj" where
  "py_new C = \<lparr>cls = C, attrs = Map.empty\<rparr>"

section \<open>The container\<close>

text \<open>
  Modelled from the spec: the container class (\<^verbatim>\<open>forte.data.container\<close>) is not part of
  the source; the entry classes call its methods \<^verbatim>\<open>get_next_id\<close>, \<^verbatim>\<open>validate\<close>,
  \<^verbatim>\<open>add_entry_creation_record\<close>, \<^verbatim>\<open>add_field_record\<close> and \<^verbatim>\<open>get_entry\<close>. The spec
  gives: an id allocator whose ids are unique for the container's lifetime, an admission
  validation that accepts or rejects an entry, append-only audits of creations and of field
  mutations, and the resolution of an id to an entry or not-found. The admission policy is
  the field \<open>admits\<close>: what a call of \<^verbatim>\<open>validate\<close> does with an entry, which is either to
  raise an exception or to return its verdict (\<^verbatim>\<open>True\<close> for success, \<^verbatim>\<open>False\<close> for a
  rejection).
\<close>

record 'f container =
  next_id :: int
  admits :: "'f obj \<Rightarrow> pyerr + bool"
  creation_records :: "'f pyval list"
  field_records :: "('f pyval \<times> string) list"
  entries :: "'f pyval \<rightharpoonup> 'f obj"

type_synonym 'f heap = "nat \<rightharpoonup> 'f container"

definition get_next_id :: "'f container \<Rightarrow> 'f pyval \<times> 'f container" where
  "get_next_id c = (VInt (next_id c), c\<lparr>next_id := next_id c + 1\<rparr>)"

definition validate :: "'f container \<Rightarrow> 'f obj \<Rightarrow> pyerr + bool" where
  "validate c e = admits c e"

definition add_entry_creation_record :: "'f container \<Rightarrow> 'f pyval \<Rightarrow> 'f container" where
  "add_entry_creation_record c tid = c\<lparr>creation_records := creation_records c @ [tid]\<rparr>"

definition add_field_record :: "'f container \<Rightarrow> 'f pyval \<Rightarrow> string \<Rightarrow> 'f container" where
  "add_field_record c tid name = c\<lparr>field_records := field_records c @ [(tid, name)]\<rparr>"

definition get_entry :: "'f container \<Rightarrow> 'f pyval \<Rightarrow> pyerr + 'f obj" where
  "get_entry c tid = (case entries c tid of None \<Rightarrow> Inl EntryNotFound | Some e \<Rightarrow> Inr e)"

text \<open>\<^verbatim>\<open>pack.method\<close>: looking a container method up on a value. Only a reference to a
  container has it; on \<^verbatim>\<open>None\<close> or any other value the lookup raises.\<close>

definition pack_method :: "'f heap \<Rightarrow> 'f pyval \<Rightarrow> string \<Rightarrow> pyerr + (nat \<times> 'f container)" where
  "pack_method h p name =
     (case p of
        VPack r \<Rightarrow> (case h r of
                      None \<Rightarrow> Inl (AttributeError (py_type_name p) name)
                    | Some c \<Rightarrow> Inr (r, c))
      | _ \<Rightarrow> Inl (AttributeError (py_type_name p) name))"

section \<open>Entry\<close>

text \<open>
  A method that mutates \<^verbatim>\<open>self\<close> or the container returns the exception it raised, if
  any, with the object and the heap as it left them: an exception does not undo the
  assignments made before it.
\<close>

type_synonym 'f outcome = "pyerr option \<times> 'f obj \<times> 'f heap"

text \<open>\<^verbatim>\<open>record_creation\<close>: \<^verbatim>\<open>self.__pack.add_entry_creation_record(self._tid)\<close>.\<close>

definition Entry_record_creation :: "'f heap \<Rightarrow> 'f obj \<Rightarrow> 'f outcome" where
  "Entry_record_creation h self =
     (case py_getattr self ''_Entry__pack'' of
        Inl e \<Rightarrow> (Some e, self, h)
      | Inr p \<Rightarrow>
          (case pack_method h p ''add_entry_creation_record'' of
             Inl e \<Rightarrow> (Some e, self, h)
           | Inr (r, c) \<Rightarrow>
               (case py_getattr self ''_tid'' of
                  Inl e \<Rightarrow> (Some e, self, h)
                | Inr tid \<Rightarrow> (None, self, h(r \<mapsto> add_entry_creation_record c tid)))))"

text \<open>The four assignments of \<^verbatim>\<open>__init__\<close> (lines 64 to 74), given the id that
  \<^verbatim>\<open>pack.get_next_id()\<close> returned.\<close>

definition Entry_init_fields :: "'f obj \<Rightarrow> 'f pyval \<Rightarrow> 'f pyval \<Rightarrow> 'f obj" where
  "Entry_init_fields self pack tid =
     py_setattr
       (py_setattr
         (py_setattr
           (py_setattr self ''_tid'' tid)
           ''_embedding'' np_empty_0)
         ''_Entry__pack'' pack)
       ''_Entry__field_modified'' (VSet [])"

text \<open>\<^verbatim>\<open>Entry.__init__(self, pack)\<close>: the id is taken first, then the fields are set, then
  \<^verbatim>\<open>pack.validate(self)\<close> is called, and then the creation is recorded. The call of
  \<^verbatim>\<open>validate\<close> is a statement of its own (line 75): an exception it raises leaves
  \<^verbatim>\<open>__init__\<close>, the value it returns is not used, and \<^verbatim>\<open>__init__\<close> raises nothing
  itself.\<close>

definition Entry_init :: "'f heap \<Rightarrow> 'f obj \<Rightarrow> 'f pyval \<Rightarrow> 'f outcome" where
  "Entry_init h self pack =
     (case pack_method h pack ''get_next_id'' of
        Inl e \<Rightarrow> (Some e, self, h)
      | Inr (r, c) \<Rightarrow>
          (let (tid, c1) = get_next_id c;
               h1 = h(r \<mapsto> c1);
               self1 = Entry_init_fields self pack tid
           in case validate c1 self1 of
                Inl e \<Rightarrow> (Some e, self1, h1)
              | Inr _ \<Rightarrow> Entry_record_creation h1 self1))"

text \<open>\<^verbatim>\<open>reset\<close>: \<^verbatim>\<open>self.__init__(self.__pack)\<close>, for an instance whose class does not
  override \<^verbatim>\<open>__init__\<close>.\<close>

definition Entry_reset :: "'f heap \<Rightarrow> 'f obj \<Rightarrow> 'f outcome" where
  "Entry_reset h self =
     (case py_getattr self ''_Entry__pack'' of
        Inl e \<Rightarrow> (Some e, self, h)
      | Inr p \<Rightarrow> Entry_init h self p)"

text \<open>\<^verbatim>\<open>__getstate__\<close>: a copy of the dictionary with the embedding as a list and without
  the two private entries. \<^verbatim>\<open>pop\<close> raises on a missing key.\<close>

definition Entry_getstate :: "'f obj \<Rightarrow> pyerr + (string \<rightharpoonup> 'f pyval)" where
  "Entry_getstate self =
     (let state = attrs self in
      case py_getattr self ''_embedding'' of
        Inl e \<Rightarrow> Inl e
      | Inr emb \<Rightarrow>
          (case tolist emb of
             Inl e \<Rightarrow> Inl e
           | Inr l \<Rightarrow>
               (case dict_pop (state(''_embedding'' \<mapsto> l)) ''_Entry__pack'' of
                  Inl e \<Rightarrow> Inl e
                | Inr state1 \<Rightarrow> dict_pop state1 ''_Entry__field_modified'')))"

text \<open>\<^verbatim>\<open>__setstate__\<close>: the modified-field set is made empty, the embedding list becomes an
  array again, and the dictionary is updated with the state. \<^verbatim>\<open>_Entry__pack\<close> is not
  assigned.\<close>

definition Entry_setstate :: "'f obj \<Rightarrow> (string \<rightharpoonup> 'f pyval) \<Rightarrow> pyerr option \<times> 'f obj" where
  "Entry_setstate self state =
     (let self1 = py_setattr self ''_Entry__field_modified'' (VSet []) in
      case state ''_embedding'' of
        None \<Rightarrow> (Some (KeyError ''_embedding''), self1)
      | Some l \<Rightarrow>
          (None, self1\<lparr>attrs := attrs self1 ++ state(''_embedding'' \<mapsto> np_array l)\<rparr>))"

text \<open>The properties \<^verbatim>\<open>embedding\<close> (getter and setter), \<^verbatim>\<open>tid\<close> and \<^verbatim>\<open>pack\<close>, and
  \<^verbatim>\<open>set_pack\<close>.\<close>

definition Entry_embedding :: "'f obj \<Rightarrow> pyerr + 'f pyval" where
  "Entry_embedding self = py_getattr self ''_embedding''"

definition Entry_embedding_setter :: "'f obj \<Rightarrow> 'f pyval \<Rightarrow> 'f obj" where
  "Entry_embedding_setter self embed_v = py_setattr self ''_embedding'' (np_array embed_v)"

definition Entry_tid :: "'f obj \<Rightarrow> pyerr + 'f pyval" where
  "Entry_tid self = py_getattr self ''_tid''"

definition Entry_pack :: "'f obj \<Rightarrow> pyerr + 'f pyval" where
  "Entry_pack self = py_getattr self ''_Entry__pack''"

definition Entry_set_pack :: "'f obj \<Rightarrow> 'f pyval \<Rightarrow> 'f obj" where
  "Entry_set_pack self pack = py_setattr self ''_Entry__pack'' pack"

text \<open>
  \<^verbatim>\<open>set_fields(**kwargs)\<close>, one pair at a time in the order of the keyword arguments: a
  name in \<^verbatim>\<open>vars(self)\<close> is assigned, any other raises; after the assignment the field
  is recorded with the container as \<^verbatim>\<open>self.__pack.add_field_record(self.tid, name)\<close>.
\<close>

fun Entry_set_fields :: "'f heap \<Rightarrow> 'f obj \<Rightarrow> (string \<times> 'f pyval) list \<Rightarrow> 'f outcome" where
  "Entry_set_fields h self [] = (None, self, h)"
| "Entry_set_fields h self ((field_name, field_value) # kwargs) =
     (if field_name \<in> dom (attrs self) then
        (let self1 = py_setattr self field_name field_value in
         case py_getattr self1 ''_Entry__pack'' of
           Inl e \<Rightarrow> (Some e, self1, h)
         | Inr p \<Rightarrow>
             (case pack_method h p ''add_field_record'' of
                Inl e \<Rightarrow> (Some e, self1, h)
              | Inr (r, c) \<Rightarrow>
                  (case Entry_tid self1 of
                     Inl e \<Rightarrow> (Some e, self1, h)
                   | Inr tid \<Rightarrow>
                       Entry_set_fields (h(r \<mapsto> add_field_record c tid field_name)) self1 kwargs)))
      else (Some (AttributeError_set_fields (cls self) field_name), self, h))"

text \<open>\<^verbatim>\<open>__eq__\<close> and \<^verbatim>\<open>__hash__\<close> of \<^verbatim>\<open>Entry\<close>. \<open>other\<close> is \<^verbatim>\<open>None\<close> or an entry. Both
  tuples are built before they are compared, so both ids are read.\<close>

definition Entry_eq :: "'f obj \<Rightarrow> 'f obj option \<Rightarrow> pyerr + bool" where
  "Entry_eq self other =
     (case other of
        None \<Rightarrow> Inr False
      | Some other \<Rightarrow>
          (case py_getattr self ''_tid'' of
             Inl e \<Rightarrow> Inl e
           | Inr t1 \<Rightarrow>
               (case Entry_tid other of
                  Inl e \<Rightarrow> Inl e
                | Inr t2 \<Rightarrow> Inr (cls self = cls other \<and> py_eq t1 t2))))"

definition py_hash :: "'f builtins \<Rightarrow> 'f pyval \<Rightarrow> pyerr + int" where
  "py_hash B v =
     (if hashable v then Inr (hash_val B v) else Inl (TypeError_unhashable (py_type_name v)))"

definition Entry_hash :: "'f builtins \<Rightarrow> 'f obj \<Rightarrow> pyerr + int" where
  "Entry_hash B self =
     (case py_getattr self ''_tid'' of
        Inl e \<Rightarrow> Inl e
      | Inr t \<Rightarrow>
          (case py_hash B t of
             Inl e \<Rightarrow> Inl e
           | Inr ht \<Rightarrow> Inr (hash_tuple B [hash_type B (cls self), ht])))"


text \<open>Iteration over a value (\<^verbatim>\<open>tuple(v)\<close>, \<^verbatim>\<open>for m in v\<close>).\<close>

fun py_iter :: "'f pyval \<Rightarrow> pyerr + 'f pyval list" where
  "py_iter (VSet xs) = Inr xs"
| "py_iter (VStr s) = Inr (map (\<lambda>c. VStr [c]) s)"
| "py_iter (VFloats _) = Inl NotModelled"
| "py_iter (VNdarray _) = Inl NotModelled"
| "py_iter v = Inl (TypeError_not_iterable (py_type_name v))"

section \<open>BaseLink\<close>

text \<open>
  \<^verbatim>\<open>BaseLink\<close> is abstract: \<^verbatim>\<open>get_parent\<close> and \<^verbatim>\<open>get_child\<close> belong to the concrete
  link class, and the \<^verbatim>\<open>==\<close> and \<^verbatim>\<open>hash\<close> of the entries they return belong to the
  classes of those entries. They are the parameters \<open>get_parent\<close>, \<open>get_child\<close>, \<open>ent_eq\<close>
  and \<open>ent_hash\<close>; each may raise.

  \<^verbatim>\<open>__eq__\<close> builds both tuples first, so the four endpoints are resolved in the order
  written; the tuples are then compared item by item, stopping at the first difference.
\<close>

definition BaseLink_eq ::
  "('f obj \<Rightarrow> pyerr + 'f obj) \<Rightarrow> ('f obj \<Rightarrow> pyerr + 'f obj) \<Rightarrow>
   ('f obj \<Rightarrow> 'f obj \<Rightarrow> pyerr + bool) \<Rightarrow> 'f obj \<Rightarrow> 'f obj option \<Rightarrow> pyerr + bool" where
  "BaseLink_eq get_parent get_child ent_eq self other =
     (case other of
        None \<Rightarrow> Inr False
      | Some other \<Rightarrow>
          (case get_parent self of Inl e \<Rightarrow> Inl e | Inr p1 \<Rightarrow>
          (case get_child self of Inl e \<Rightarrow> Inl e | Inr c1 \<Rightarrow>
          (case get_parent other of Inl e \<Rightarrow> Inl e | Inr p2 \<Rightarrow>
          (case get_child other of Inl e \<Rightarrow> Inl e | Inr c2 \<Rightarrow>
             if cls self \<noteq> cls other then Inr False
             else (case ent_eq p1 p2 of
                     Inl e \<Rightarrow> Inl e
                   | Inr False \<Rightarrow> Inr False
                   | Inr True \<Rightarrow> ent_eq c1 c2))))))"


section \<open>BaseGroup\<close>

text \<open>\<^verbatim>\<open>add_members\<close>: each member is checked against \<^verbatim>\<open>self.MemberType\<close> and its
  \<^verbatim>\<open>tid\<close> added to \<^verbatim>\<open>self._members\<close>; the first member of another type raises, the
  members before it stay added. \<^verbatim>\<open>add_member\<close> calls it with the one member.\<close>

fun BaseGroup_add_members ::
  "('f pyval list \<Rightarrow> 'f pyval \<Rightarrow> 'f pyval list) \<Rightarrow> 'f obj \<Rightarrow> 'f obj list \<Rightarrow> pyerr option \<times> 'f obj" where
  "BaseGroup_add_members place self [] = (None, self)"
| "BaseGroup_add_members place self (member # members) =
     (case type_MemberType (cls self) of
        None \<Rightarrow> (Some (AttributeError (type_name (cls self)) ''MemberType''), self)
      | Some T \<Rightarrow>
          if \<not> py_isinstance member T
          then (Some (TypeError_members (cls self) T (cls member)), self)
          else
            (case py_getattr self ''_members'' of
               Inl e \<Rightarrow> (Some e, self)
             | Inr (VSet xs) \<Rightarrow>
                 (case Entry_tid member of
                    Inl e \<Rightarrow> (Some e, self)
                  | Inr t \<Rightarrow>
                      if \<not> hashable t then (Some (TypeError_unhashable (py_type_name t)), self)
                      else BaseGroup_add_members place
                             (py_setattr self ''_members'' (VSet (pyset_add place xs t))) members)
             | Inr v \<Rightarrow> (Some (AttributeError (py_type_name v) ''add''), self)))"

definition BaseGroup_add_member ::
  "('f pyval list \<Rightarrow> 'f pyval \<Rightarrow> 'f pyval list) \<Rightarrow> 'f obj \<Rightarrow> 'f obj \<Rightarrow> pyerr option \<times> 'f obj" where
  "BaseGroup_add_member place self member = BaseGroup_add_members place self [member]"

text \<open>\<^verbatim>\<open>BaseGroup.__init__(self, pack, members=None)\<close>.\<close>

definition BaseGroup_init ::
  "('f pyval list \<Rightarrow> 'f pyval \<Rightarrow> 'f pyval list) \<Rightarrow> 'f heap \<Rightarrow> 'f obj \<Rightarrow> 'f pyval \<Rightarrow>
   'f obj list option \<Rightarrow> 'f outcome" where
  "BaseGroup_init place h self pack members =
     (case Entry_init h self pack of
        (Some e, self1, h1) \<Rightarrow> (Some e, self1, h1)
      | (None, self1, h1) \<Rightarrow>
          (let self2 = py_setattr self1 ''_members'' (VSet []) in
           case members of
             None \<Rightarrow> (None, self2, h1)
           | Some ms \<Rightarrow>
               (case BaseGroup_add_members place self2 ms of (r, self3) \<Rightarrow> (r, self3, h1))))"

definition BaseGroup_members :: "'f obj \<Rightarrow> pyerr + 'f pyval" where
  "BaseGroup_members self = py_getattr self ''_members''"

text \<open>\<^verbatim>\<open>__hash__\<close>: \<^verbatim>\<open>hash((type(self), tuple(self.members)))\<close>. The inner tuple lists the
  members in the iteration order of the set.\<close>

fun hash_items :: "'f builtins \<Rightarrow> 'f pyval list \<Rightarrow> pyerr + int list" where
  "hash_items B [] = Inr []"
| "hash_items B (x # xs) =
     (case py_hash B x of
        Inl e \<Rightarrow> Inl e
      | Inr hx \<Rightarrow> (case hash_items B xs of Inl e \<Rightarrow> Inl e | Inr hs \<Rightarrow> Inr (hx # hs)))"

definition BaseGroup_hash :: "'f builtins \<Rightarrow> 'f obj \<Rightarrow> pyerr + int" where
  "BaseGroup_hash B self =
     (case BaseGroup_members self of Inl e \<Rightarrow> Inl e | Inr ms \<Rightarrow>
     (case py_iter ms of Inl e \<Rightarrow> Inl e | Inr xs \<Rightarrow>
     (case hash_items B xs of Inl e \<Rightarrow> Inl e | Inr hs \<Rightarrow>
        Inr (hash_tuple B [hash_type B (cls self), hash_tuple B hs]))))"

text \<open>\<^verbatim>\<open>__eq__\<close>: \<^verbatim>\<open>(type(self), self.members) == (type(other), other.members)\<close>.\<close>

definition BaseGroup_eq :: "'f obj \<Rightarrow> 'f obj option \<Rightarrow> pyerr + bool" where
  "BaseGroup_eq self other =
     (case other of
        None \<Rightarrow> Inr False
      | Some other \<Rightarrow>
          (case BaseGroup_members self of Inl e \<Rightarrow> Inl e | Inr m1 \<Rightarrow>
          (case BaseGroup_members other of Inl e \<Rightarrow> Inl e | Inr m2 \<Rightarrow>
             Inr (cls self = cls other \<and> py_eq m1 m2))))"

text \<open>\<^verbatim>\<open>get_members\<close>: the guard \<^verbatim>\<open>self.pack is None\<close> reads the property \<^verbatim>\<open>pack\<close>,
  that is \<^verbatim>\<open>self.__pack\<close>; then every member id is resolved with
  \<^verbatim>\<open>self.pack.get_entry(m)\<close> and the entries are collected in a set.\<close>

fun resolve_members :: "'f heap \<Rightarrow> 'f obj \<Rightarrow> 'f pyval list \<Rightarrow> 'f obj set \<Rightarrow> pyerr + 'f obj set" where
  "resolve_members h self [] member_entries = Inr member_entries"
| "resolve_members h self (m # ms) member_entries =
     (case Entry_pack self of Inl e \<Rightarrow> Inl e | Inr p \<Rightarrow>
     (case pack_method h p ''get_entry'' of Inl e \<Rightarrow> Inl e | Inr (r, c) \<Rightarrow>
     (case get_entry c m of Inl e \<Rightarrow> Inl e | Inr x \<Rightarrow>
        resolve_members h self ms (insert x member_entries))))"

definition BaseGroup_get_members :: "'f heap \<Rightarrow> 'f obj \<Rightarrow> pyerr + 'f obj set" where
  "BaseGroup_get_members h self =
     (case Entry_pack self of
        Inl e \<Rightarrow> Inl e
      | Inr p \<Rightarrow>
          if p = VNone then Inl ValueError_not_attached
          else
            (case BaseGroup_members self of Inl e \<Rightarrow> Inl e | Inr ms \<Rightarrow>
            (case py_iter ms of Inl e \<Rightarrow> Inl e | Inr xs \<Rightarrow>
               resolve_members h self xs {})))"


section \<open>A sample container and sample entries\<close>

text \<open>
  The scenario of the specification: a container whose next id is 1, two entry classes
  \<^verbatim>\<open>Token\<close> and \<^verbatim>\<open>Sentence\<close>, and a group class whose members are tokens. The
  entries \<open>ex_A\<close> and \<open>ex_B\<close> are constructed one after the other under the same container.
\<close>

definition ex_Token :: pytype where
  "ex_Token = PyType ''Token'' [''Annotation'', ''Entry'', ''object''] None"

definition ex_Sentence :: pytype where
  "ex_Sentence = PyType ''Sentence'' [''Annotation'', ''Entry'', ''object''] None"

definition ex_CorefGroup :: pytype where
  "ex_CorefGroup = PyType ''CorefGroup'' [''BaseGroup'', ''Entry'', ''object''] (Some ''Token'')"

definition ex_pack :: "real container" where
  "ex_pack = \<lparr>next_id = 1, admits = (\<lambda>_. Inr True), creation_records = [], field_records = [],
     entries = Map.empty\<rparr>"

definition ex_heap :: "real heap" where
  "ex_heap = [0 \<mapsto> ex_pack]"

definition ex_A :: "real obj" where
  "ex_A = fst (snd (Entry_init ex_heap (py_new ex_Token) (VPack 0)))"

definition ex_heap1 :: "real heap" where
  "ex_heap1 = snd (snd (Entry_init ex_heap (py_new ex_Token) (VPack 0)))"

definition ex_B :: "real obj" where
  "ex_B = fst (snd (Entry_init ex_heap1 (py_new ex_Token) (VPack 0)))"

text \<open>A sample of the built-in hash functions.\<close>

definition ex_builtins :: "real builtins" where
  "ex_builtins = \<lparr>hash_type = (\<lambda>T. int (length (type_name T))),
     hash_val = (\<lambda>v. case v of VInt i \<Rightarrow> i | _ \<Rightarrow> 0),
     hash_tuple = foldl (\<lambda>a h. 31 * a + h) 17\<rparr>"

text \<open>Two containers that admit no entry: the validation of the first returns its
  rejection, that of the second raises it.\<close>

definition ex_pack_closed :: "real container" where
  "ex_pack_closed = ex_pack\<lparr>admits := (\<lambda>_. Inr False)\<rparr>"

definition ex_pack_raising :: "real container" where
  "ex_pack_raising = ex_pack\<lparr>admits := (\<lambda>_. Inl ValidationRejected)\<rparr>"

text \<open>\<open>ex_A\<close> after \<^verbatim>\<open>ex_A.embedding = [0.5, 1.25]\<close>.\<close>

definition ex_A_embedded :: "real obj" where
  "ex_A_embedded = Entry_embedding_setter ex_A (VFloats [1 / 2, 5 / 4])"

text \<open>The snapshot of \<open>ex_A_embedded\<close>.\<close>

definition ex_A_state :: "string \<rightharpoonup> real pyval" where
  "ex_A_state = [''_tid'' \<mapsto> VInt 1, ''_embedding'' \<mapsto> VFloats [1 / 2, 5 / 4]]"

text \<open>A sentence, constructed after \<open>ex_B\<close>, and an empty group of tokens constructed after
  it. \<open>ex_place\<close> puts a new element of a set last in the iteration order.\<close>

definition ex_heap2 :: "real heap" where
  "ex_heap2 = snd (snd (Entry_init ex_heap1 (py_new ex_Token) (VPack 0)))"

definition ex_S :: "real obj" where
  "ex_S = fst (snd (Entry_init ex_heap2 (py_new ex_Sentence) (VPack 0)))"

definition ex_heap3 :: "real heap" where
  "ex_heap3 = snd (snd (Entry_init ex_heap2 (py_new ex_Sentence) (VPack 0)))"

definition ex_place :: "real pyval list \<Rightarrow> real pyval \<Rightarrow> real pyval list" where
  "ex_place xs x = xs @ [x]"

definition ex_G :: "real obj" where
  "ex_G = fst (snd (BaseGroup_init ex_place ex_heap3 (py_new ex_CorefGroup) (VPack 0) None))"






text \<open>
  Two tokens with the ids 0 and 8 and two groups of tokens with the ids 9 and 10, each
  constructed under a container whose next id is that number. The first group is given the
  members in the order 0, 8, the second in the order 8, 0. (In CPython the ids 0 and 8 fall
  into the same slot of a new set's table, so the one added first comes first in the
  iteration order, as \<open>ex_place\<close> has it.)
\<close>

definition ex_E0 :: "real obj" where
  "ex_E0 = fst (snd (Entry_init [0 \<mapsto> ex_pack\<lparr>next_id := 0\<rparr>] (py_new ex_Token) (VPack 0)))"

definition ex_E8 :: "real obj" where
  "ex_E8 = fst (snd (Entry_init [0 \<mapsto> ex_pack\<lparr>next_id := 8\<rparr>] (py_new ex_Token) (VPack 0)))"

definition ex_G1 :: "real obj" where
  "ex_G1 = fst (snd (BaseGroup_init ex_place [0 \<mapsto> ex_pack\<lparr>next_id := 9\<rparr>]
     (py_new ex_CorefGroup) (VPack 0) (Some [ex_E0, ex_E8])))"

definition ex_G2 :: "real obj" where
  "ex_G2 = fst (snd (BaseGroup_init ex_place [0 \<mapsto> ex_pack\<lparr>next_id := 10\<rparr>]
     (py_new ex_CorefGroup) (VPack 0) (Some [ex_E8, ex_E0])))"

text \<open>
  The scenario of the specification: the token \<open>ex_A\<close> is added twice to the group \<open>ex_G\<close>;
  the group is serialized and the snapshot deserialized into a new instance, to which no
  container is attached.
\<close>

definition ex_GA :: "real obj" where
  "ex_GA = snd (BaseGroup_add_members ex_place ex_G [ex_A, ex_A])"

definition ex_GA_state :: "string \<rightharpoonup> real pyval" where
  "ex_GA_state = [''_tid'' \<mapsto> VInt 4, ''_embedding'' \<mapsto> VFloats [], ''_members'' \<mapsto> VSet [VInt 1]]"

definition ex_GA_restored :: "real obj" where
  "ex_GA_restored = snd (Entry_setstate (py_new ex_CorefGroup) ex_GA_state)"

section \<open>Evaluating the samples\<close>

lemmas init_defs = Entry_init_def Entry_init_fields_def Entry_record_creation_def pack_method_def
  py_getattr_def py_setattr_def get_next_id_def validate_def add_entry_creation_record_def
  py_new_def np_empty_0_def

lemma ex_A_eq:
  "ex_A = \<lparr>cls = ex_Token, attrs = [''_tid'' \<mapsto> VInt 1, ''_embedding'' \<mapsto> VNdarray [],
     ''_Entry__pack'' \<mapsto> VPack 0, ''_Entry__field_modified'' \<mapsto> VSet []]\<rparr>"
  by (simp add: ex_A_def ex_heap_def ex_pack_def init_defs)

lemma ex_heap1_eq: "ex_heap1 = [0 \<mapsto> ex_pack\<lparr>next_id := 2, creation_records := [VInt 1]\<rparr>]"
  by (simp add: ex_heap1_def ex_heap_def ex_pack_def init_defs)

lemma ex_B_eq:
  "ex_B = \<lparr>cls = ex_Token, attrs = [''_tid'' \<mapsto> VInt 2, ''_embedding'' \<mapsto> VNdarray [],
     ''_Entry__pack'' \<mapsto> VPack 0, ''_Entry__field_modified'' \<mapsto> VSet []]\<rparr>"
  by (simp add: ex_B_def ex_heap1_eq ex_pack_def init_defs)

lemma ex_heap2_eq:
  "ex_heap2 = [0 \<mapsto> ex_pack\<lparr>next_id := 3, creation_records := [VInt 1, VInt 2]\<rparr>]"
  by (simp add: ex_heap2_def ex_heap1_eq ex_pack_def init_defs)

lemma ex_S_eq:
  "ex_S = \<lparr>cls = ex_Sentence, attrs = [''_tid'' \<mapsto> VInt 3, ''_embedding'' \<mapsto> VNdarray [],
     ''_Entry__pack'' \<mapsto> VPack 0, ''_Entry__field_modified'' \<mapsto> VSet []]\<rparr>"
  by (simp add: ex_S_def ex_heap2_eq ex_pack_def init_defs)

lemma ex_heap3_eq:
  "ex_heap3 = [0 \<mapsto> ex_pack\<lparr>next_id := 4, creation_records := [VInt 1, VInt 2, VInt 3]\<rparr>]"
  by (simp add: ex_heap3_def ex_heap2_eq ex_pack_def init_defs)

lemma ex_G_eq:
  "ex_G = \<lparr>cls = ex_CorefGroup, attrs = [''_tid'' \<mapsto> VInt 4, ''_embedding'' \<mapsto> VNdarray [],
     ''_Entry__pack'' \<mapsto> VPack 0, ''_Entry__field_modified'' \<mapsto> VSet [],
     ''_members'' \<mapsto> VSet []]\<rparr>"
  by (simp add: ex_G_def BaseGroup_init_def ex_heap3_eq ex_pack_def init_defs)




lemma ex_A_embedded_eq:
  "ex_A_embedded = \<lparr>cls = ex_Token, attrs = [''_tid'' \<mapsto> VInt 1,
      ''_embedding'' \<mapsto> VNdarray [1 / 2, 5 / 4], ''_Entry__pack'' \<mapsto> VPack 0,
      ''_Entry__field_modified'' \<mapsto> VSet []]\<rparr>"
  by (auto simp: ex_A_embedded_def ex_A_eq Entry_embedding_setter_def py_setattr_def fun_eq_iff)

lemma ex_A_embedded_getstate: "Entry_getstate ex_A_embedded = Inr ex_A_state"
  by (auto simp: ex_A_embedded_eq ex_A_state_def Entry_getstate_def py_getattr_def dict_pop_def
      fun_eq_iff)

lemma ex_E0_eq:
  "ex_E0 = \<lparr>cls = ex_Token, attrs = [''_tid'' \<mapsto> VInt 0, ''_embedding'' \<mapsto> VNdarray [],
     ''_Entry__pack'' \<mapsto> VPack 0, ''_Entry__field_modified'' \<mapsto> VSet []]\<rparr>"
  by (simp add: ex_E0_def ex_pack_def init_defs)

lemma ex_E8_eq:
  "ex_E8 = \<lparr>cls = ex_Token, attrs = [''_tid'' \<mapsto> VInt 8, ''_embedding'' \<mapsto> VNdarray [],
     ''_Entry__pack'' \<mapsto> VPack 0, ''_Entry__field_modified'' \<mapsto> VSet []]\<rparr>"
  by (simp add: ex_E8_def ex_pack_def init_defs)

lemma ex_pyset_add:
  "pyset_add ex_place [] x = [x]" "x \<noteq> y \<Longrightarrow> pyset_add ex_place [y] x = [y, x]"
  "pyset_add ex_place [x] x = [x]"
  by (auto simp: pyset_add_def ex_place_def)

lemma ex_G1_eq:
  "ex_G1 = \<lparr>cls = ex_CorefGroup, attrs = [''_tid'' \<mapsto> VInt 9, ''_embedding'' \<mapsto> VNdarray [],
     ''_Entry__pack'' \<mapsto> VPack 0, ''_Entry__field_modified'' \<mapsto> VSet [],
     ''_members'' \<mapsto> VSet [VInt 0, VInt 8]]\<rparr>"
  by (simp add: ex_G1_def BaseGroup_init_def ex_pack_def init_defs ex_E0_eq ex_E8_eq
      ex_CorefGroup_def ex_Token_def py_isinstance_def Entry_tid_def ex_pyset_add)

lemma ex_G2_eq:
  "ex_G2 = \<lparr>cls = ex_CorefGroup, attrs = [''_tid'' \<mapsto> VInt 10, ''_embedding'' \<mapsto> VNdarray [],
     ''_Entry__pack'' \<mapsto> VPack 0, ''_Entry__field_modified'' \<mapsto> VSet [],
     ''_members'' \<mapsto> VSet [VInt 8, VInt 0]]\<rparr>"
  by (simp add: ex_G2_def BaseGroup_init_def ex_pack_def init_defs ex_E0_eq ex_E8_eq
      ex_CorefGroup_def ex_Token_def py_isinstance_def Entry_tid_def ex_pyset_add)

lemma ex_GA_eq:
  "ex_GA = \<lparr>cls = ex_CorefGroup, attrs = [''_tid'' \<mapsto> VInt 4, ''_embedding'' \<mapsto> VNdarray [],
     ''_Entry__pack'' \<mapsto> VPack 0, ''_Entry__field_modified'' \<mapsto> VSet [],
     ''_members'' \<mapsto> VSet [VInt 1]]\<rparr>"
  by (simp add: ex_GA_def ex_G_eq ex_A_eq ex_CorefGroup_def ex_Token_def py_isinstance_def
      Entry_tid_def py_getattr_def py_setattr_def ex_pyset_add)

lemma ex_GA_getstate: "Entry_getstate ex_GA = Inr ex_GA_state"
  by (auto simp: ex_GA_eq ex_GA_state_def Entry_getstate_def py_getattr_def dict_pop_def fun_eq_iff)

lemma ex_GA_restored_eq:
  "Entry_setstate (py_new ex_CorefGroup) ex_GA_state = (None, ex_GA_restored)"
  "ex_GA_restored = \<lparr>cls = ex_CorefGroup, attrs = [''_Entry__field_modified'' \<mapsto> VSet [],
     ''_tid'' \<mapsto> VInt 4, ''_embedding'' \<mapsto> VNdarray [], ''_members'' \<mapsto> VSet [VInt 1]]\<rparr>"
  by (auto simp: ex_GA_restored_def ex_GA_state_def Entry_setstate_def py_new_def py_setattr_def
      map_add_def fun_eq_iff)

section \<open>Equality and hash of base entries\<close>

text \<open>
  Claim C1. Two base entries whose ids are the integers \<open>i\<close> and \<open>j\<close> are equal exactly
  when they have the same class and \<open>i = j\<close>. The hash of an entry is the hash of the pair
  (class, id), so entries with the same class and id have the same hash. No other attribute
  takes part: assigning any attribute other than \<^verbatim>\<open>_tid\<close> (the embedding, the set of
  modified fields) changes neither the comparison nor the hash.
\<close>

theorem Entry_eq_hash_type_id:
  "Entry_tid a = Inr (VInt i) \<Longrightarrow> Entry_tid b = Inr (VInt j) \<Longrightarrow>
   Entry_eq a (Some b) = Inr (cls a = cls b \<and> i = j) \<and>
   Entry_hash B a = Inr (hash_tuple B [hash_type B (cls a), hash_val B (VInt i)]) \<and>
   Entry_hash B b = Inr (hash_tuple B [hash_type B (cls b), hash_val B (VInt j)]) \<and>
   (cls a = cls b \<and> i = j \<longrightarrow> Entry_hash B a = Entry_hash B b) \<and>
   (name \<noteq> ''_tid'' \<longrightarrow>
      Entry_eq (py_setattr a name v) (Some (py_setattr b name w)) = Entry_eq a (Some b) \<and>
      Entry_hash B (py_setattr a name v) = Entry_hash B a \<and>
      Entry_hash B (py_setattr b name w) = Entry_hash B b)"
  by (auto simp: Entry_eq_def Entry_hash_def Entry_tid_def py_hash_def py_getattr_def
      py_setattr_def split: option.splits)

text \<open>The entry \<open>ex_A\<close> and a copy of it with another embedding: same class, same id.\<close>

theorem Entry_eq_hash_type_id_witness:
  "Entry_tid ex_A = Inr (VInt 1) \<and>
   Entry_tid (Entry_embedding_setter ex_A (VFloats [1 / 2])) = Inr (VInt 1) \<and>
   Entry_eq ex_A (Some (Entry_embedding_setter ex_A (VFloats [1 / 2]))) = Inr True \<and>
   Entry_hash ex_builtins ex_A = Inr 16493 \<and>
   Entry_hash ex_builtins (Entry_embedding_setter ex_A (VFloats [1 / 2])) = Inr 16493 \<and>
   Entry_eq (py_setattr ex_A ''_Entry__field_modified'' (VSet [VStr ''x'']))
     (Some (py_setattr (Entry_embedding_setter ex_A (VFloats [1 / 2]))
        ''_Entry__field_modified'' (VSet []))) = Inr True"
proof -
  have a: "Entry_tid ex_A = Inr (VInt 1)"
    by (simp add: ex_A_eq Entry_tid_def py_getattr_def)
  have b: "Entry_tid (Entry_embedding_setter ex_A (VFloats [1 / 2])) = Inr (VInt 1)"
    by (simp add: ex_A_eq Entry_tid_def Entry_embedding_setter_def py_getattr_def py_setattr_def)
  have c: "cls ex_A = ex_Token" "cls (Entry_embedding_setter ex_A (VFloats [1 / 2])) = ex_Token"
    by (simp_all add: ex_A_eq Entry_embedding_setter_def py_setattr_def)
  show ?thesis
    using Entry_eq_hash_type_id [OF a b, of ex_builtins "''_Entry__field_modified''"
        "VSet [VStr ''x'']" "VSet []"] a b
    by (simp add: c ex_builtins_def ex_Token_def)
qed

section \<open>Comparison with None\<close>

text \<open>
  Claim C9. For every instance, \<^verbatim>\<open>__eq__\<close> of \<^verbatim>\<open>Entry\<close>, of \<^verbatim>\<open>BaseLink\<close> and of
  \<^verbatim>\<open>BaseGroup\<close> returns \<^verbatim>\<open>False\<close> when the other operand is \<^verbatim>\<open>None\<close>: it raises
  nothing, and for a link it holds whatever \<^verbatim>\<open>get_parent\<close> and \<^verbatim>\<open>get_child\<close> would do
  (they are not called), for a group whatever its members are.
\<close>

theorem eq_None_False:
  "Entry_eq self None = Inr False \<and>
   BaseLink_eq get_parent get_child ent_eq self None = Inr False \<and>
   BaseGroup_eq self None = Inr False"
  by (simp add: Entry_eq_def BaseLink_eq_def BaseGroup_eq_def)


section \<open>Construction and the container's validation\<close>

text \<open>What \<^verbatim>\<open>__init__\<close> does with the outcome of \<^verbatim>\<open>pack.validate(self)\<close>. The id has
  been taken from the container before the call. When the call raises, the exception leaves
  \<^verbatim>\<open>__init__\<close>, no creation record is made and the container's next id has moved on.
  When the call returns, whatever the value, the creation is recorded and \<^verbatim>\<open>__init__\<close>
  returns.\<close>

lemma Entry_init_validate_raises:
  "h r = Some c \<Longrightarrow> admits c (Entry_init_fields self (VPack r) (VInt (next_id c))) = Inl e \<Longrightarrow>
   Entry_init h self (VPack r) =
     (Some e, Entry_init_fields self (VPack r) (VInt (next_id c)), h(r \<mapsto> snd (get_next_id c))) \<and>
   creation_records (snd (get_next_id c)) = creation_records c \<and>
   next_id (snd (get_next_id c)) = next_id c + 1"
  by (simp add: Entry_init_def pack_method_def get_next_id_def validate_def)

lemma Entry_init_validate_returns:
  "h r = Some c \<Longrightarrow> admits c (Entry_init_fields self (VPack r) (VInt (next_id c))) = Inr b \<Longrightarrow>
   Entry_init h self (VPack r) =
     (None, Entry_init_fields self (VPack r) (VInt (next_id c)),
      h(r \<mapsto> c\<lparr>next_id := next_id c + 1,
                 creation_records := creation_records c @ [VInt (next_id c)]\<rparr>))"
  by (simp add: Entry_init_def pack_method_def get_next_id_def validate_def
      Entry_record_creation_def Entry_init_fields_def py_getattr_def py_setattr_def
      add_entry_creation_record_def)

text \<open>
  Claim C10 at a container whose next id is 1 and whose validation rejects every entry by
  returning \<^verbatim>\<open>False\<close>: the construction of a token raises nothing, the token has the id 1
  and its creation is recorded, where the claim has the construction fail with no creation
  record. The id is used up, as the claim says. Under the container that raises its
  rejection the construction fails with that exception, no creation is recorded and the id
  is used up as well.
\<close>

theorem Entry_init_returned_rejection_discarded:
  "validate ex_pack_closed (Entry_init_fields (py_new ex_Token) (VPack 0) (VInt 1)) = Inr False \<and>
   Entry_init [0 \<mapsto> ex_pack_closed] (py_new ex_Token) (VPack 0) =
     (None, Entry_init_fields (py_new ex_Token) (VPack 0) (VInt 1),
      [0 \<mapsto> ex_pack_closed\<lparr>next_id := 2, creation_records := [VInt 1]\<rparr>]) \<and>
   Entry_init [0 \<mapsto> ex_pack_raising] (py_new ex_Token) (VPack 0) =
     (Some ValidationRejected, Entry_init_fields (py_new ex_Token) (VPack 0) (VInt 1),
      [0 \<mapsto> ex_pack_raising\<lparr>next_id := 2\<rparr>])"
  by (simp add: ex_pack_closed_def ex_pack_raising_def ex_pack_def init_defs)

section \<open>Serialization round trip\<close>

text \<open>
  Claim C2. For an entry as construction leaves it (it has its container reference and its
  set of modified fields, and its embedding is an array of floats), \<^verbatim>\<open>__getstate__\<close>
  returns the dictionary of the entry with the embedding as a plain list of the same numbers
  and without the two private entries; \<^verbatim>\<open>__setstate__\<close> of that snapshot on a new instance
  of the same class gives an entry with every attribute as it was (the embedding an array of
  the same numbers again), except that the container reference is absent and the set of
  modified fields is empty.
\<close>

theorem getstate_setstate_roundtrip:
  "attrs e ''_embedding'' = Some (VNdarray xs) \<Longrightarrow>
   ''_Entry__pack'' \<in> dom (attrs e) \<Longrightarrow>
   ''_Entry__field_modified'' \<in> dom (attrs e) \<Longrightarrow>
   Entry_getstate e =
     Inr ((attrs e)(''_embedding'' \<mapsto> VFloats xs, ''_Entry__pack'' := None,
            ''_Entry__field_modified'' := None)) \<and>
   Entry_setstate (py_new (cls e))
       ((attrs e)(''_embedding'' \<mapsto> VFloats xs, ''_Entry__pack'' := None,
            ''_Entry__field_modified'' := None)) =
     (None, e\<lparr>attrs := (attrs e)(''_Entry__pack'' := None,
                  ''_Entry__field_modified'' \<mapsto> VSet [])\<rparr>)"
proof (intro conjI)
  assume emb: "attrs e ''_embedding'' = Some (VNdarray xs)"
    and pk: "''_Entry__pack'' \<in> dom (attrs e)"
    and fm: "''_Entry__field_modified'' \<in> dom (attrs e)"
  show "Entry_getstate e =
     Inr ((attrs e)(''_embedding'' \<mapsto> VFloats xs, ''_Entry__pack'' := None,
            ''_Entry__field_modified'' := None))"
    using emb pk fm by (simp add: Entry_getstate_def py_getattr_def dict_pop_def)
  have "[''_Entry__field_modified'' \<mapsto> VSet []] ++
          (attrs e)(''_Entry__pack'' := None, ''_Entry__field_modified'' := None,
            ''_embedding'' \<mapsto> VNdarray xs) =
        (attrs e)(''_Entry__pack'' := None, ''_Entry__field_modified'' \<mapsto> VSet [])"
    using emb by (auto simp: map_add_def fun_eq_iff split: option.splits)
  then show "Entry_setstate (py_new (cls e))
       ((attrs e)(''_embedding'' \<mapsto> VFloats xs, ''_Entry__pack'' := None,
            ''_Entry__field_modified'' := None)) =
     (None, e\<lparr>attrs := (attrs e)(''_Entry__pack'' := None,
                  ''_Entry__field_modified'' \<mapsto> VSet [])\<rparr>)"
    by (simp add: Entry_setstate_def py_new_def py_setattr_def fun_upd_twist)
qed

theorem getstate_setstate_roundtrip_witness:
  "attrs ex_A_embedded ''_embedding'' = Some (VNdarray [1 / 2, 5 / 4]) \<and>
   ''_Entry__pack'' \<in> dom (attrs ex_A_embedded) \<and>
   ''_Entry__field_modified'' \<in> dom (attrs ex_A_embedded) \<and>
   Entry_getstate ex_A_embedded = Inr ex_A_state \<and>
   Entry_setstate (py_new ex_Token) ex_A_state =
     (None, \<lparr>cls = ex_Token, attrs = [''_tid'' \<mapsto> VInt 1,
        ''_embedding'' \<mapsto> VNdarray [1 / 2, 5 / 4], ''_Entry__field_modified'' \<mapsto> VSet []]\<rparr>)"
proof -
  have e: "ex_A_embedded = \<lparr>cls = ex_Token, attrs = [''_tid'' \<mapsto> VInt 1,
      ''_embedding'' \<mapsto> VNdarray [1 / 2, 5 / 4], ''_Entry__pack'' \<mapsto> VPack 0,
      ''_Entry__field_modified'' \<mapsto> VSet []]\<rparr>"
    by (auto simp: ex_A_embedded_def ex_A_eq Entry_embedding_setter_def py_setattr_def fun_eq_iff)
  have h1: "attrs ex_A_embedded ''_embedding'' = Some (VNdarray [1 / 2, 5 / 4])"
    and h2: "''_Entry__pack'' \<in> dom (attrs ex_A_embedded)"
    and h3: "''_Entry__field_modified'' \<in> dom (attrs ex_A_embedded)"
    by (simp_all add: e)
  have s: "(attrs ex_A_embedded)(''_embedding'' \<mapsto> VFloats [1 / 2, 5 / 4],
      ''_Entry__pack'' := None, ''_Entry__field_modified'' := None) = ex_A_state"
    by (auto simp: e ex_A_state_def fun_eq_iff)
  have t: "ex_A_embedded\<lparr>attrs := (attrs ex_A_embedded)(''_Entry__pack'' := None,
      ''_Entry__field_modified'' \<mapsto> VSet [])\<rparr> =
      \<lparr>cls = ex_Token, attrs = [''_tid'' \<mapsto> VInt 1,
        ''_embedding'' \<mapsto> VNdarray [1 / 2, 5 / 4], ''_Entry__field_modified'' \<mapsto> VSet []]\<rparr>"
    by (auto simp: e fun_eq_iff)
  have c: "cls ex_A_embedded = ex_Token"
    by (simp add: e)
  show ?thesis
    using getstate_setstate_roundtrip [OF h1 h2 h3] h1 h2 h3
    by (simp only: s t c)
qed

section \<open>Setting fields by name\<close>

lemma set_fields_unknown:
  "bad \<notin> dom (attrs self) \<Longrightarrow>
   Entry_set_fields h self ((bad, v) # post) =
     (Some (AttributeError_set_fields (cls self) bad), self, h)"
  by auto

lemma set_fields_known:
  "name \<in> dom (attrs self) \<Longrightarrow>
   Entry_pack (py_setattr self name val) = Inr (VPack r) \<Longrightarrow> h r = Some c \<Longrightarrow>
   Entry_tid (py_setattr self name val) = Inr tid \<Longrightarrow>
   Entry_set_fields h self ((name, val) # kwargs) =
     Entry_set_fields (h(r \<mapsto> add_field_record c tid name)) (py_setattr self name val) kwargs"
  by (auto simp: Entry_pack_def pack_method_def)

lemma set_fields_prefix:
  "Entry_pack self = Inr (VPack r) \<Longrightarrow> h r = Some c \<Longrightarrow> Entry_tid self = Inr tid \<Longrightarrow>
   \<forall>k\<in>fst ` set pre. k \<in> dom (attrs self) \<and> k \<noteq> ''_Entry__pack'' \<and> k \<noteq> ''_tid'' \<Longrightarrow>
   Entry_set_fields h self (pre @ rest) =
     Entry_set_fields
       (h(r \<mapsto> c\<lparr>field_records := field_records c @ map (\<lambda>(k, v). (tid, k)) pre\<rparr>))
       (self\<lparr>attrs := attrs self ++ map_of (rev pre)\<rparr>) rest"
proof (induction pre arbitrary: self h c)
  case Nil
  then show ?case by (simp add: fun_upd_idem)
next
  case (Cons kv pre)
  obtain k v where kv: "kv = (k, v)" by (cases kv)
  let ?self1 = "py_setattr self k v"
  let ?c1 = "add_field_record c tid k"
  from Cons.prems kv have k: "k \<in> dom (attrs self)" "k \<noteq> ''_Entry__pack''" "k \<noteq> ''_tid''"
    by auto
  have p1: "Entry_pack ?self1 = Inr (VPack r)"
    using Cons.prems(1) k by (auto simp: Entry_pack_def py_getattr_def py_setattr_def split: option.splits)
  have t1: "Entry_tid ?self1 = Inr tid"
    using Cons.prems(3) k by (auto simp: Entry_tid_def py_getattr_def py_setattr_def split: option.splits)
  have step: "Entry_set_fields h self ((kv # pre) @ rest) =
      Entry_set_fields (h(r \<mapsto> ?c1)) ?self1 (pre @ rest)"
    using set_fields_known [where h = h and r = r, OF k(1) p1 Cons.prems(2) t1] kv by simp
  have keys: "\<forall>k\<in>fst ` set pre. k \<in> dom (attrs ?self1) \<and> k \<noteq> ''_Entry__pack'' \<and> k \<noteq> ''_tid''"
    using Cons.prems(4) by (auto simp: py_setattr_def)
  have ih: "Entry_set_fields (h(r \<mapsto> ?c1)) ?self1 (pre @ rest) =
      Entry_set_fields
       ((h(r \<mapsto> ?c1))(r \<mapsto> ?c1\<lparr>field_records := field_records ?c1 @ map (\<lambda>(k, v). (tid, k)) pre\<rparr>))
       (?self1\<lparr>attrs := attrs ?self1 ++ map_of (rev pre)\<rparr>) rest"
    by (rule Cons.IH [where h = "h(r \<mapsto> ?c1)", OF p1 _ t1 keys]) simp
  have a: "attrs ?self1 ++ map_of (rev pre) = attrs self ++ map_of (rev (kv # pre))"
    by (simp add: kv py_setattr_def map_add_def fun_eq_iff split: option.splits)
  have s: "?self1\<lparr>attrs := attrs ?self1 ++ map_of (rev pre)\<rparr> =
      self\<lparr>attrs := attrs self ++ map_of (rev (kv # pre))\<rparr>"
    by (simp add: a) (simp add: py_setattr_def)
  have c: "?c1\<lparr>field_records := field_records ?c1 @ map (\<lambda>(k, v). (tid, k)) pre\<rparr> =
      c\<lparr>field_records := field_records c @ map (\<lambda>(k, v). (tid, k)) (kv # pre)\<rparr>"
    by (simp add: add_field_record_def kv)
  note step
  also note ih
  also have "Entry_set_fields
       ((h(r \<mapsto> ?c1))(r \<mapsto> ?c1\<lparr>field_records := field_records ?c1 @ map (\<lambda>(k, v). (tid, k)) pre\<rparr>))
       (?self1\<lparr>attrs := attrs ?self1 ++ map_of (rev pre)\<rparr>) rest =
     Entry_set_fields
       (h(r \<mapsto> c\<lparr>field_records := field_records c @ map (\<lambda>(k, v). (tid, k)) (kv # pre)\<rparr>))
       (self\<lparr>attrs := attrs self ++ map_of (rev (kv # pre))\<rparr>) rest"
    by (simp only: s c fun_upd_upd)
  finally show ?case .
qed

text \<open>
  Claim C3. \<^verbatim>\<open>set_fields\<close> handles its pairs one at a time. The attributes it accepts are
  the keys of \<^verbatim>\<open>vars(self)\<close>, such as \<^verbatim>\<open>_embedding\<close>; the name of a property, such as
  \<^verbatim>\<open>embedding\<close>, is none of them (the comment in the source says so). A pair whose name
  is not an attribute of the entry raises the error that names the class and the field, and the entry
  and the container stay as they were at that moment. A pair whose name is an attribute
  assigns it and appends (id, name) to the field records of the entry's container, then the
  remaining pairs follow. Hence, for an attached entry and names other than the container
  reference and the id: after the pairs \<open>pre\<close> all are assigned and recorded under the
  entry's id, and if an unknown name \<open>bad\<close> follows them the call raises for \<open>bad\<close> with
  the pairs of \<open>pre\<close> still assigned and recorded and \<open>bad\<close> still no attribute.
\<close>

theorem set_fields_pairwise:
  "(bad \<notin> dom (attrs self) \<longrightarrow>
      Entry_set_fields h self ((bad, bad_value) # post) =
        (Some (AttributeError_set_fields (cls self) bad), self, h)) \<and>
   (name \<in> dom (attrs self) \<longrightarrow>
    Entry_pack (py_setattr self name val) = Inr (VPack r') \<longrightarrow> h r' = Some c' \<longrightarrow>
    Entry_tid (py_setattr self name val) = Inr tid' \<longrightarrow>
      Entry_set_fields h self ((name, val) # kwargs) =
        Entry_set_fields (h(r' \<mapsto> add_field_record c' tid' name)) (py_setattr self name val) kwargs) \<and>
   (Entry_pack self = Inr (VPack r) \<longrightarrow> h r = Some c \<longrightarrow> Entry_tid self = Inr tid \<longrightarrow>
    (\<forall>k\<in>fst ` set pre. k \<in> dom (attrs self) \<and> k \<noteq> ''_Entry__pack'' \<and> k \<noteq> ''_tid'') \<longrightarrow>
      Entry_set_fields h self pre =
        (None, self\<lparr>attrs := attrs self ++ map_of (rev pre)\<rparr>,
         h(r \<mapsto> c\<lparr>field_records := field_records c @ map (\<lambda>(k, v). (tid, k)) pre\<rparr>)) \<and>
      (bad \<notin> dom (attrs self) \<longrightarrow>
         Entry_set_fields h self (pre @ (bad, bad_value) # post) =
           (Some (AttributeError_set_fields (cls self) bad),
            self\<lparr>attrs := attrs self ++ map_of (rev pre)\<rparr>,
            h(r \<mapsto> c\<lparr>field_records := field_records c @ map (\<lambda>(k, v). (tid, k)) pre\<rparr>)) \<and>
         (attrs self ++ map_of (rev pre)) bad = None))"
proof (intro conjI impI)
  assume "bad \<notin> dom (attrs self)"
  then show "Entry_set_fields h self ((bad, bad_value) # post) =
      (Some (AttributeError_set_fields (cls self) bad), self, h)"
    by (rule set_fields_unknown)
next
  assume "name \<in> dom (attrs self)" "Entry_pack (py_setattr self name val) = Inr (VPack r')"
    "h r' = Some c'" "Entry_tid (py_setattr self name val) = Inr tid'"
  then show "Entry_set_fields h self ((name, val) # kwargs) =
      Entry_set_fields (h(r' \<mapsto> add_field_record c' tid' name)) (py_setattr self name val) kwargs"
    by (rule set_fields_known [where h = h and r = r'])
next
  let ?S = "self\<lparr>attrs := attrs self ++ map_of (rev pre)\<rparr>"
  let ?H = "h(r \<mapsto> c\<lparr>field_records := field_records c @ map (\<lambda>(k, v). (tid, k)) pre\<rparr>)"
  assume a: "Entry_pack self = Inr (VPack r)" "h r = Some c" "Entry_tid self = Inr tid"
    "\<forall>k\<in>fst ` set pre. k \<in> dom (attrs self) \<and> k \<noteq> ''_Entry__pack'' \<and> k \<noteq> ''_tid''"
  have "Entry_set_fields h self (pre @ []) = Entry_set_fields ?H ?S []"
    by (rule set_fields_prefix [where h = h and r = r, OF a])
  then show "Entry_set_fields h self pre = (None, ?S, ?H)"
    by (simp only: append_Nil2 Entry_set_fields.simps(1))
  assume b: "bad \<notin> dom (attrs self)"
  have "dom (map_of (rev pre)) \<subseteq> dom (attrs self)"
    using a(4) by (auto simp: dom_map_of_conv_image_fst)
  then have d: "dom (attrs self ++ map_of (rev pre)) = dom (attrs self)"
    by auto
  with b have nd: "bad \<notin> dom (attrs self ++ map_of (rev pre))"
    by (simp only: not_False_eq_True)
  then show "(attrs self ++ map_of (rev pre)) bad = None"
    by (meson domIff)
  from nd have "bad \<notin> dom (attrs ?S)"
    by simp
  then have e2: "Entry_set_fields ?H ?S ((bad, bad_value) # post) =
      (Some (AttributeError_set_fields (cls ?S) bad), ?S, ?H)"
    by (rule set_fields_unknown)
  have e1: "Entry_set_fields h self (pre @ (bad, bad_value) # post) =
      Entry_set_fields ?H ?S ((bad, bad_value) # post)"
    by (rule set_fields_prefix [where h = h and r = r, OF a])
  have e3: "cls ?S = cls self"
    by simp
  show "Entry_set_fields h self (pre @ (bad, bad_value) # post) =
      (Some (AttributeError_set_fields (cls self) bad), ?S, ?H)"
    by (simp only: e1 e2 e3)
qed


theorem set_fields_pairwise_witness:
  "''lemma'' \<notin> dom (attrs ex_A) \<and> ''_embedding'' \<in> dom (attrs ex_A) \<and>
   Entry_pack ex_A = Inr (VPack 0) \<and>
   ex_heap1 0 = Some (ex_pack\<lparr>next_id := 2, creation_records := [VInt 1]\<rparr>) \<and>
   Entry_tid ex_A = Inr (VInt 1) \<and>
   Entry_set_fields ex_heap1 ex_A [(''_embedding'', VNdarray [1 / 2, 5 / 4])] =
     (None, ex_A_embedded,
      [0 \<mapsto> ex_pack\<lparr>next_id := 2, creation_records := [VInt 1],
         field_records := [(VInt 1, ''_embedding'')]\<rparr>]) \<and>
   Entry_set_fields ex_heap1 ex_A
       [(''_embedding'', VNdarray [1 / 2, 5 / 4]), (''lemma'', VStr ''be''), (''_tid'', VInt 7)] =
     (Some (AttributeError_set_fields ex_Token ''lemma''), ex_A_embedded,
      [0 \<mapsto> ex_pack\<lparr>next_id := 2, creation_records := [VInt 1],
         field_records := [(VInt 1, ''_embedding'')]\<rparr>])"
proof -
  let ?c = "ex_pack\<lparr>next_id := 2, creation_records := [VInt 1]\<rparr>"
  let ?pre = "[(''_embedding'', VNdarray [1 / 2, 5 / 4 :: real])]"
  have h1: "''lemma'' \<notin> dom (attrs ex_A)" and h2: "''_embedding'' \<in> dom (attrs ex_A)"
    by (simp_all add: ex_A_eq)
  have h3: "Entry_pack ex_A = Inr (VPack 0)" and h5: "Entry_tid ex_A = Inr (VInt 1)"
    by (simp_all add: ex_A_eq Entry_pack_def Entry_tid_def py_getattr_def)
  have h4: "ex_heap1 0 = Some ?c"
    by (simp add: ex_heap1_eq)
  have h6: "\<forall>k\<in>fst ` set ?pre. k \<in> dom (attrs ex_A) \<and> k \<noteq> ''_Entry__pack'' \<and> k \<noteq> ''_tid''"
    by (simp add: ex_A_eq)
  have h7: "Entry_pack (py_setattr ex_A ''_embedding'' (VNdarray [1 / 2, 5 / 4])) = Inr (VPack 0)"
    and h8: "Entry_tid (py_setattr ex_A ''_embedding'' (VNdarray [1 / 2, 5 / 4])) = Inr (VInt 1)"
    by (simp_all add: ex_A_eq Entry_pack_def Entry_tid_def py_getattr_def py_setattr_def)
  have s: "ex_A\<lparr>attrs := attrs ex_A ++ map_of (rev ?pre)\<rparr> = ex_A_embedded"
    by (simp add: ex_A_embedded_def Entry_embedding_setter_def py_setattr_def)
  have c: "cls ex_A = ex_Token"
    by (simp add: ex_A_eq)
  have hp: "ex_heap1(0 \<mapsto> ?c\<lparr>field_records := field_records ?c @ map (\<lambda>(k, v). (VInt 1, k)) ?pre\<rparr>) =
      [0 \<mapsto> ex_pack\<lparr>next_id := 2, creation_records := [VInt 1],
         field_records := [(VInt 1, ''_embedding'')]\<rparr>]"
    by (simp add: ex_heap1_eq ex_pack_def)
  from set_fields_pairwise [where self = ex_A and h = ex_heap1 and bad = "''lemma''"
      and bad_value = "VStr ''be''" and post = "[(''_tid'', VInt 7)]" and name = "''_embedding''"
      and val = "VNdarray [1 / 2, 5 / 4]" and r' = 0 and c' = ?c and tid' = "VInt 1"
      and kwargs = "[]" and r = 0 and c = ?c and tid = "VInt 1" and pre = ?pre]
  have "Entry_set_fields ex_heap1 ex_A ?pre =
      (None, ex_A\<lparr>attrs := attrs ex_A ++ map_of (rev ?pre)\<rparr>,
       ex_heap1(0 \<mapsto> ?c\<lparr>field_records := field_records ?c @ map (\<lambda>(k, v). (VInt 1, k)) ?pre\<rparr>)) \<and>
     Entry_set_fields ex_heap1 ex_A (?pre @ (''lemma'', VStr ''be'') # [(''_tid'', VInt 7)]) =
      (Some (AttributeError_set_fields (cls ex_A) ''lemma''),
       ex_A\<lparr>attrs := attrs ex_A ++ map_of (rev ?pre)\<rparr>,
       ex_heap1(0 \<mapsto> ?c\<lparr>field_records := field_records ?c @ map (\<lambda>(k, v). (VInt 1, k)) ?pre\<rparr>))"
    using h1 h2 h3 h4 h5 h6 h7 h8 by blast
  then show ?thesis
    using h1 h2 h3 h4 h5 by (simp only: s c hp append.simps) simp
qed


section \<open>Adding members to a group\<close>

lemma set_pyset_add: "set (pyset_add place xs x) = insert x (set xs)"
  by (auto simp: pyset_add_def)

lemma distinct_pyset_add: "distinct xs \<Longrightarrow> distinct (pyset_add place xs x)"
  by (simp add: pyset_add_def)

lemma pyset_add_Nil: "pyset_add place [] x = [x]"
proof -
  have "distinct ys \<Longrightarrow> set ys = {x} \<Longrightarrow> ys = [x]" for ys :: "'a pyval list"
    by (cases ys) (auto simp: subset_singleton_iff)
  then show ?thesis
    by (auto simp: pyset_add_def)
qed

lemma pyset_add_mem: "x \<in> set xs \<Longrightarrow> pyset_add place xs x = xs"
  by (simp add: pyset_add_def)

lemma add_members_mismatch:
  "type_MemberType (cls g) = Some T \<Longrightarrow> \<not> py_isinstance m T \<Longrightarrow>
   BaseGroup_add_members place g (m # ms) = (Some (TypeError_members (cls g) T (cls m)), g)"
  by simp

lemma add_members_accept:
  "type_MemberType (cls g) = Some T \<Longrightarrow> py_isinstance m T \<Longrightarrow>
   attrs g ''_members'' = Some (VSet xs) \<Longrightarrow> Entry_tid m = Inr t \<Longrightarrow> hashable t \<Longrightarrow>
   BaseGroup_add_members place g (m # ms) =
     BaseGroup_add_members place (py_setattr g ''_members'' (VSet (pyset_add place xs t))) ms"
  by (simp add: py_getattr_def)

lemma py_setattr_same: "attrs g k = Some v \<Longrightarrow> py_setattr g k v = g"
  by (simp add: py_setattr_def map_upd_triv)

lemma py_setattr_twice: "py_setattr (py_setattr g k v) k w = py_setattr g k w"
  by (simp add: py_setattr_def)

lemma add_members_all:
  "type_MemberType (cls g) = Some T \<Longrightarrow> attrs g ''_members'' = Some (VSet xs) \<Longrightarrow>
   distinct xs \<Longrightarrow> \<forall>m\<in>set ms. py_isinstance m T \<and> (\<exists>j. Entry_tid m = Inr (VInt j)) \<Longrightarrow>
   \<exists>ys. BaseGroup_add_members place g ms = (None, py_setattr g ''_members'' (VSet ys)) \<and>
        distinct ys \<and> set ys = set xs \<union> {t. \<exists>m\<in>set ms. Entry_tid m = Inr t}"
proof (induction ms arbitrary: g xs)
  case Nil
  then show ?case
    by (auto simp: py_setattr_same intro!: exI [of _ xs])
next
  case (Cons m ms)
  from Cons.prems(4) obtain j where inst: "py_isinstance m T" and tid: "Entry_tid m = Inr (VInt j)"
    by auto
  let ?xs1 = "pyset_add place xs (VInt j)"
  let ?g1 = "py_setattr g ''_members'' (VSet ?xs1)"
  have step: "BaseGroup_add_members place g (m # ms) = BaseGroup_add_members place ?g1 ms"
    using add_members_accept [OF Cons.prems(1) inst Cons.prems(2) tid] by simp
  have "\<exists>ys. BaseGroup_add_members place ?g1 ms = (None, py_setattr ?g1 ''_members'' (VSet ys)) \<and>
        distinct ys \<and> set ys = set ?xs1 \<union> {t. \<exists>m\<in>set ms. Entry_tid m = Inr t}"
  proof (rule Cons.IH)
    show "type_MemberType (cls ?g1) = Some T"
      using Cons.prems(1) by (simp add: py_setattr_def)
    show "attrs ?g1 ''_members'' = Some (VSet ?xs1)"
      by (simp add: py_setattr_def)
    show "distinct ?xs1"
      using Cons.prems(3) by (rule distinct_pyset_add)
    show "\<forall>m\<in>set ms. py_isinstance m T \<and> (\<exists>j. Entry_tid m = Inr (VInt j))"
      using Cons.prems(4) by simp
  qed
  then obtain ys where ys: "BaseGroup_add_members place ?g1 ms = (None, py_setattr g ''_members'' (VSet ys))"
    "distinct ys" "set ys = set ?xs1 \<union> {t. \<exists>m\<in>set ms. Entry_tid m = Inr t}"
    by (auto simp: py_setattr_twice)
  have "set ys = set xs \<union> {t. \<exists>m\<in>set (m # ms). Entry_tid m = Inr t}"
    using ys(3) tid by (auto simp: set_pyset_add)
  with ys(1,2) step show ?case
    by (intro exI [of _ ys]) simp
qed


text \<open>
  Claim C4. For a group whose class declares the member type \<open>T\<close> and a candidate that is an
  entry: \<^verbatim>\<open>add_member\<close> succeeds exactly when the candidate is an instance of \<open>T\<close>, and then
  its id is in the members, which stay without repetition; a candidate of another type raises
  the error that names the group's class, \<open>T\<close> and the candidate's class, and the group is
  unchanged. After adding any list of accepted members the members are the old ones and the
  ids of the added ones, each once; adding the same member twice to an empty group leaves
  the one id.
\<close>

theorem add_member_type_and_set:
  "type_MemberType (cls g) = Some T \<Longrightarrow> attrs g ''_members'' = Some (VSet xs) \<Longrightarrow>
   distinct xs \<Longrightarrow> Entry_tid m = Inr (VInt i) \<Longrightarrow>
   ((fst (BaseGroup_add_member place g m) = None) = py_isinstance m T) \<and>
   (py_isinstance m T \<longrightarrow>
      BaseGroup_add_member place g m =
        (None, py_setattr g ''_members'' (VSet (pyset_add place xs (VInt i)))) \<and>
      set (pyset_add place xs (VInt i)) = insert (VInt i) (set xs) \<and>
      distinct (pyset_add place xs (VInt i)) \<and>
      (xs = [] \<longrightarrow>
         BaseGroup_add_members place g [m, m] = (None, py_setattr g ''_members'' (VSet [VInt i])))) \<and>
   (\<not> py_isinstance other T \<longrightarrow>
      BaseGroup_add_member place g other = (Some (TypeError_members (cls g) T (cls other)), g)) \<and>
   ((\<forall>m\<in>set ms. py_isinstance m T \<and> (\<exists>j. Entry_tid m = Inr (VInt j))) \<longrightarrow>
      (\<exists>ys. BaseGroup_add_members place g ms = (None, py_setattr g ''_members'' (VSet ys)) \<and>
         distinct ys \<and> set ys = set xs \<union> {t. \<exists>m\<in>set ms. Entry_tid m = Inr t}))"
proof (intro conjI impI)
  assume a: "type_MemberType (cls g) = Some T" "attrs g ''_members'' = Some (VSet xs)"
    "distinct xs" "Entry_tid m = Inr (VInt i)"
  show "(fst (BaseGroup_add_member place g m) = None) = py_isinstance m T"
    using a by (simp add: BaseGroup_add_member_def py_getattr_def)
  show "set (pyset_add place xs (VInt i)) = insert (VInt i) (set xs)"
    by (rule set_pyset_add)
  show "distinct (pyset_add place xs (VInt i))"
    using a(3) by (rule distinct_pyset_add)
  {
    assume "\<not> py_isinstance other T"
    with a(1) show "BaseGroup_add_member place g other =
        (Some (TypeError_members (cls g) T (cls other)), g)"
      by (simp add: BaseGroup_add_member_def)
  }
  {
    assume "\<forall>m\<in>set ms. py_isinstance m T \<and> (\<exists>j. Entry_tid m = Inr (VInt j))"
    with a(1-3) show "\<exists>ys. BaseGroup_add_members place g ms =
          (None, py_setattr g ''_members'' (VSet ys)) \<and>
        distinct ys \<and> set ys = set xs \<union> {t. \<exists>m\<in>set ms. Entry_tid m = Inr t}"
      by (rule add_members_all)
  }
  assume inst: "py_isinstance m T"
  show "BaseGroup_add_member place g m =
      (None, py_setattr g ''_members'' (VSet (pyset_add place xs (VInt i))))"
    using a inst by (simp add: BaseGroup_add_member_def py_getattr_def)
  assume "xs = []"
  with a inst show "BaseGroup_add_members place g [m, m] =
      (None, py_setattr g ''_members'' (VSet [VInt i]))"
    by (simp add: py_getattr_def py_setattr_def pyset_add_Nil pyset_add_mem)
qed

theorem add_member_type_and_set_witness:
  "type_MemberType (cls ex_G) = Some ''Token'' \<and> attrs ex_G ''_members'' = Some (VSet []) \<and>
   Entry_tid ex_A = Inr (VInt 1) \<and> py_isinstance ex_A ''Token'' \<and>
   \<not> py_isinstance ex_S ''Token'' \<and>
   py_isinstance ex_B ''Token'' \<and> Entry_tid ex_B = Inr (VInt 2) \<and>
   BaseGroup_add_member ex_place ex_G ex_A = (None, py_setattr ex_G ''_members'' (VSet [VInt 1])) \<and>
   BaseGroup_add_members ex_place ex_G [ex_A, ex_A] =
     (None, py_setattr ex_G ''_members'' (VSet [VInt 1])) \<and>
   BaseGroup_add_member ex_place ex_G ex_S =
     (Some (TypeError_members ex_CorefGroup ''Token'' ex_Sentence), ex_G) \<and>
   (\<exists>ys. BaseGroup_add_members ex_place ex_G [ex_A, ex_B, ex_A] =
          (None, py_setattr ex_G ''_members'' (VSet ys)) \<and>
        distinct ys \<and> set ys = {VInt 1, VInt 2})"
proof -
  have h1: "type_MemberType (cls ex_G) = Some ''Token''"
    and h2: "attrs ex_G ''_members'' = Some (VSet [])"
    and c: "cls ex_G = ex_CorefGroup" "cls ex_S = ex_Sentence"
    by (simp_all add: ex_G_eq ex_S_eq ex_CorefGroup_def)
  have h3: "distinct ([] :: real pyval list)"
    by simp
  have h4: "Entry_tid ex_A = Inr (VInt 1)" and tb: "Entry_tid ex_B = Inr (VInt 2)"
    by (simp_all add: ex_A_eq ex_B_eq Entry_tid_def py_getattr_def)
  have h5: "py_isinstance ex_A ''Token''" and ib: "py_isinstance ex_B ''Token''"
    and h6: "\<not> py_isinstance ex_S ''Token''"
    by (simp_all add: py_isinstance_def ex_A_eq ex_B_eq ex_S_eq ex_Token_def ex_Sentence_def)
  have h7: "\<forall>m\<in>set [ex_A, ex_B, ex_A]. py_isinstance m ''Token'' \<and> (\<exists>j. Entry_tid m = Inr (VInt j))"
    using h4 h5 tb ib by simp
  have t: "{t. \<exists>m\<in>set [ex_A, ex_B, ex_A]. Entry_tid m = Inr t} = {VInt 1, VInt 2}"
    using h4 tb by auto
  have u: "set [] \<union> {VInt 1, VInt 2} = {VInt 1, VInt 2 :: real pyval}"
    by simp
  from add_member_type_and_set [OF h1 h2 h3 h4, of ex_place ex_S "[ex_A, ex_B, ex_A]"] h5 h6 h7
  have "BaseGroup_add_member ex_place ex_G ex_A =
        (None, py_setattr ex_G ''_members'' (VSet (pyset_add ex_place [] (VInt 1)))) \<and>
      BaseGroup_add_members ex_place ex_G [ex_A, ex_A] =
        (None, py_setattr ex_G ''_members'' (VSet [VInt 1])) \<and>
      BaseGroup_add_member ex_place ex_G ex_S =
        (Some (TypeError_members (cls ex_G) ''Token'' (cls ex_S)), ex_G) \<and>
      (\<exists>ys. BaseGroup_add_members ex_place ex_G [ex_A, ex_B, ex_A] =
          (None, py_setattr ex_G ''_members'' (VSet ys)) \<and>
        distinct ys \<and>
        set ys = set [] \<union> {t. \<exists>m\<in>set [ex_A, ex_B, ex_A]. Entry_tid m = Inr t})"
    by blast
  then have "BaseGroup_add_member ex_place ex_G ex_A =
        (None, py_setattr ex_G ''_members'' (VSet [VInt 1])) \<and>
      BaseGroup_add_members ex_place ex_G [ex_A, ex_A] =
        (None, py_setattr ex_G ''_members'' (VSet [VInt 1])) \<and>
      BaseGroup_add_member ex_place ex_G ex_S =
        (Some (TypeError_members ex_CorefGroup ''Token'' ex_Sentence), ex_G) \<and>
      (\<exists>ys. BaseGroup_add_members ex_place ex_G [ex_A, ex_B, ex_A] =
          (None, py_setattr ex_G ''_members'' (VSet ys)) \<and>
        distinct ys \<and> set ys = {VInt 1, VInt 2})"
    by (simp only: pyset_add_Nil c t u)
  with h1 h2 h4 h5 h6 ib tb show ?thesis
    by blast
qed

section \<open>Equality and hash of links\<close>



section \<open>The id of an entry\<close>

lemma Entry_tid_cong:
  "attrs a ''_tid'' = attrs b ''_tid'' \<Longrightarrow> cls a = cls b \<Longrightarrow> Entry_tid a = Entry_tid b"
  by (simp add: Entry_tid_def py_getattr_def split: option.splits)

lemma set_fields_keeps_tid:
  "''_tid'' \<notin> fst ` set kwargs \<Longrightarrow>
   attrs (fst (snd (Entry_set_fields h self kwargs))) ''_tid'' = attrs self ''_tid'' \<and>
   cls (fst (snd (Entry_set_fields h self kwargs))) = cls self"
proof (induction h self kwargs rule: Entry_set_fields.induct)
  case (1 h self)
  then show ?case by simp
next
  case (2 h self field_name field_value kwargs)
  from "2.prems" have ne: "field_name \<noteq> ''_tid''" and rest: "''_tid'' \<notin> fst ` set kwargs"
    by auto
  show ?case
  proof (cases "field_name \<in> dom (attrs self)")
    case False
    then show ?thesis by simp
  next
    case True
    let ?self1 = "py_setattr self field_name field_value"
    have s1: "attrs ?self1 ''_tid'' = attrs self ''_tid''" "cls ?self1 = cls self"
      using ne by (simp_all add: py_setattr_def)
    show ?thesis
    proof (cases "py_getattr ?self1 ''_Entry__pack''")
      case (Inl e)
      with True s1 show ?thesis by simp
    next
      case (Inr p)
      note p = this
      show ?thesis
      proof (cases "pack_method h p ''add_field_record''")
        case (Inl e)
        with True s1 p show ?thesis by simp
      next
        case (Inr rc)
        obtain r c where rc: "rc = (r, c)" by (cases rc)
        show ?thesis
        proof (cases "Entry_tid ?self1")
          case (Inl e)
          with True s1 p Inr rc show ?thesis by simp
        next
          case tid: (Inr tid)
          have "attrs (fst (snd (Entry_set_fields (h(r \<mapsto> add_field_record c tid field_name))
                  ?self1 kwargs))) ''_tid'' = attrs ?self1 ''_tid'' \<and>
                cls (fst (snd (Entry_set_fields (h(r \<mapsto> add_field_record c tid field_name))
                  ?self1 kwargs))) = cls ?self1"
            using "2.IH" [OF True refl p Inr [unfolded rc] refl tid rest] .
          with True s1 p Inr rc tid show ?thesis by simp
        qed
      qed
    qed
  qed
qed

lemma add_members_keeps_tid:
  "attrs (snd (BaseGroup_add_members place self ms)) ''_tid'' = attrs self ''_tid'' \<and>
   cls (snd (BaseGroup_add_members place self ms)) = cls self"
proof (induction ms arbitrary: self)
  case Nil
  then show ?case by simp
next
  case (Cons m ms)
  have "attrs (snd (BaseGroup_add_members place (py_setattr self ''_members'' v) ms)) ''_tid'' =
          attrs self ''_tid'' \<and>
        cls (snd (BaseGroup_add_members place (py_setattr self ''_members'' v) ms)) = cls self" for v
    using Cons.IH [of "py_setattr self ''_members'' v"] by (simp add: py_setattr_def)
  then show ?case
    by (simp split: option.splits sum.splits pyval.splits)
qed

lemma getstate_setstate_keeps_tid:
  assumes "Entry_getstate self = Inr st"
  shows "Entry_setstate (py_new (cls self)) st =
           (None, snd (Entry_setstate (py_new (cls self)) st)) \<and>
         attrs (snd (Entry_setstate (py_new (cls self)) st)) ''_tid'' = attrs self ''_tid'' \<and>
         cls (snd (Entry_setstate (py_new (cls self)) st)) = cls self"
proof -
  from assms obtain emb l where e: "attrs self ''_embedding'' = Some emb" "tolist emb = Inr l"
    and st: "st = (attrs self)(''_embedding'' \<mapsto> l, ''_Entry__pack'' := None,
        ''_Entry__field_modified'' := None)"
    by (auto simp: Entry_getstate_def py_getattr_def dict_pop_def
        split: option.splits sum.splits if_splits)
  show ?thesis
    by (simp add: st Entry_setstate_def py_new_def py_setattr_def map_add_def
        split: option.splits)
qed

lemma reset_takes_next_id:
  "Entry_pack self = Inr (VPack r) \<Longrightarrow> h r = Some c \<Longrightarrow>
   Entry_tid (fst (snd (Entry_reset h self))) = Inr (VInt (next_id c))"
  by (auto simp: Entry_reset_def Entry_pack_def Entry_init_def pack_method_def get_next_id_def
      Entry_record_creation_def Entry_init_fields_def py_getattr_def py_setattr_def Entry_tid_def
      Let_def split: option.splits sum.splits)


lemma init_takes_next_id:
  "h r = Some c \<Longrightarrow> Entry_tid (fst (snd (Entry_init h self (VPack r)))) = Inr (VInt (next_id c))"
  by (auto simp: Entry_init_def pack_method_def get_next_id_def
      Entry_record_creation_def Entry_init_fields_def py_getattr_def py_setattr_def Entry_tid_def
      Let_def split: option.splits sum.splits)

text \<open>
  Claim C8, as the code has it. The id is assigned by construction, which takes the
  container's next id. The embedding setter, \<^verbatim>\<open>set_pack\<close>, \<^verbatim>\<open>record_creation\<close>,
  \<^verbatim>\<open>add_members\<close> and \<^verbatim>\<open>add_member\<close>, a \<^verbatim>\<open>__getstate__\<close>/\<^verbatim>\<open>__setstate__\<close> round trip and
  \<^verbatim>\<open>set_fields\<close> with keys other than \<^verbatim>\<open>_tid\<close> (whether it returns or raises) leave the
  id as it is. \<^verbatim>\<open>reset\<close> runs the construction again on the same object and so replaces
  the id by the container's next id.
\<close>

theorem tid_kept_except_reset:
  "(h r = Some c \<longrightarrow>
      Entry_tid (fst (snd (Entry_init h self (VPack r)))) = Inr (VInt (next_id c))) \<and>
   Entry_tid (Entry_embedding_setter self v) = Entry_tid self \<and>
   Entry_tid (Entry_set_pack self p) = Entry_tid self \<and>
   Entry_tid (fst (snd (Entry_record_creation h self))) = Entry_tid self \<and>
   (''_tid'' \<notin> fst ` set kwargs \<longrightarrow>
      Entry_tid (fst (snd (Entry_set_fields h self kwargs))) = Entry_tid self) \<and>
   Entry_tid (snd (BaseGroup_add_members place self ms)) = Entry_tid self \<and>
   Entry_tid (snd (BaseGroup_add_member place self m)) = Entry_tid self \<and>
   (Entry_getstate self = Inr st \<longrightarrow>
      Entry_tid (snd (Entry_setstate (py_new (cls self)) st)) = Entry_tid self) \<and>
   (Entry_pack self = Inr (VPack r) \<longrightarrow> h r = Some c \<longrightarrow>
      Entry_tid (fst (snd (Entry_reset h self))) = Inr (VInt (next_id c)))"
proof (intro conjI impI)
  show "Entry_tid (Entry_embedding_setter self v) = Entry_tid self"
    by (rule Entry_tid_cong) (simp_all add: Entry_embedding_setter_def py_setattr_def)
  show "Entry_tid (Entry_set_pack self p) = Entry_tid self"
    by (rule Entry_tid_cong) (simp_all add: Entry_set_pack_def py_setattr_def)
  show "Entry_tid (fst (snd (Entry_record_creation h self))) = Entry_tid self"
    by (simp add: Entry_record_creation_def split: sum.splits prod.splits)
  show "Entry_tid (snd (BaseGroup_add_members place self ms)) = Entry_tid self"
    using add_members_keeps_tid [of place self ms] by (intro Entry_tid_cong) simp_all
  show "Entry_tid (snd (BaseGroup_add_member place self m)) = Entry_tid self"
    unfolding BaseGroup_add_member_def
    using add_members_keeps_tid [of place self "[m]"] by (intro Entry_tid_cong) simp_all
  show "Entry_tid (fst (snd (Entry_set_fields h self kwargs))) = Entry_tid self"
    if "''_tid'' \<notin> fst ` set kwargs"
    using set_fields_keeps_tid [OF that, of h self] by (intro Entry_tid_cong) simp_all
  show "Entry_tid (snd (Entry_setstate (py_new (cls self)) st)) = Entry_tid self"
    if "Entry_getstate self = Inr st"
    using getstate_setstate_keeps_tid [OF that] by (intro Entry_tid_cong) simp_all
  show "Entry_tid (fst (snd (Entry_init h self (VPack r)))) = Inr (VInt (next_id c))"
    if "h r = Some c"
    using that by (rule init_takes_next_id)
  show "Entry_tid (fst (snd (Entry_reset h self))) = Inr (VInt (next_id c))"
    if "Entry_pack self = Inr (VPack r)" "h r = Some c"
    using that by (rule reset_takes_next_id)
qed

theorem tid_kept_except_reset_witness:
  "ex_heap1 0 = Some (ex_pack\<lparr>next_id := 2, creation_records := [VInt 1]\<rparr>) \<and>
   ''_tid'' \<notin> fst ` set [(''_embedding'', VNdarray [1 / 2, 5 / 4 :: real])] \<and>
   Entry_getstate ex_A_embedded = Inr ex_A_state \<and>
   Entry_pack ex_A_embedded = Inr (VPack 0) \<and>
   Entry_tid ex_A_embedded = Inr (VInt 1) \<and>
   Entry_tid (fst (snd (Entry_set_fields ex_heap1 ex_A_embedded
      [(''_embedding'', VNdarray [1 / 2, 5 / 4])]))) = Inr (VInt 1) \<and>
   Entry_tid (snd (Entry_setstate (py_new ex_Token) ex_A_state)) = Inr (VInt 1) \<and>
   Entry_tid (fst (snd (Entry_reset ex_heap1 ex_A_embedded))) = Inr (VInt 2)"
proof -
  let ?c = "ex_pack\<lparr>next_id := 2, creation_records := [VInt 1]\<rparr>"
  have h1: "ex_heap1 0 = Some ?c"
    by (simp add: ex_heap1_eq)
  have h2: "''_tid'' \<notin> fst ` set [(''_embedding'', VNdarray [1 / 2, 5 / 4 :: real])]"
    by simp
  have h3: "Entry_pack ex_A_embedded = Inr (VPack 0)" and t: "Entry_tid ex_A_embedded = Inr (VInt 1)"
    and c: "cls ex_A_embedded = ex_Token"
    by (simp_all add: ex_A_embedded_eq Entry_pack_def Entry_tid_def py_getattr_def)
  have n: "next_id ?c = 2"
    by simp
  from tid_kept_except_reset [where self = ex_A_embedded and h = ex_heap1 and r = 0 and c = ?c
      and kwargs = "[(''_embedding'', VNdarray [1 / 2, 5 / 4])]" and st = ex_A_state]
    h1 h2 h3 ex_A_embedded_getstate
  have "Entry_tid (fst (snd (Entry_set_fields ex_heap1 ex_A_embedded
      [(''_embedding'', VNdarray [1 / 2, 5 / 4])]))) = Entry_tid ex_A_embedded \<and>
    Entry_tid (snd (Entry_setstate (py_new (cls ex_A_embedded)) ex_A_state)) =
      Entry_tid ex_A_embedded \<and>
    Entry_tid (fst (snd (Entry_reset ex_heap1 ex_A_embedded))) = Inr (VInt (next_id ?c))"
    by blast
  then have "Entry_tid (fst (snd (Entry_set_fields ex_heap1 ex_A_embedded
      [(''_embedding'', VNdarray [1 / 2, 5 / 4])]))) = Inr (VInt 1) \<and>
    Entry_tid (snd (Entry_setstate (py_new ex_Token) ex_A_state)) = Inr (VInt 1) \<and>
    Entry_tid (fst (snd (Entry_reset ex_heap1 ex_A_embedded))) = Inr (VInt 2)"
    by (simp only: t c n)
  with h1 h2 h3 t ex_A_embedded_getstate show ?thesis
    by blast
qed

text \<open>
  Claim C8 as stated fails: \<^verbatim>\<open>reset\<close> gives the entry \<open>ex_A\<close>, whose id is 1, the id 2,
  and \<^verbatim>\<open>set_fields(_tid=99)\<close> gives it the id 99; both calls return without error.
\<close>

theorem tid_immutable_counterexample:
  "Entry_tid ex_A = Inr (VInt 1) \<and>
   fst (Entry_reset ex_heap1 ex_A) = None \<and>
   Entry_tid (fst (snd (Entry_reset ex_heap1 ex_A))) = Inr (VInt 2) \<and>
   fst (Entry_set_fields ex_heap1 ex_A [(''_tid'', VInt 99)]) = None \<and>
   Entry_tid (fst (snd (Entry_set_fields ex_heap1 ex_A [(''_tid'', VInt 99)]))) = Inr (VInt 99)"
  by (simp add: ex_A_eq ex_heap1_eq ex_pack_def Entry_reset_def Entry_tid_def init_defs
      add_field_record_def)

section \<open>Equality and hash of groups\<close>

text \<open>What holds of \<^verbatim>\<open>BaseGroup.__eq__\<close> and \<^verbatim>\<open>BaseGroup.__hash__\<close>: two groups with member
  sets are equal exactly when they have the same class and the same members; the hash is
  computed from the class and the members in their iteration order.\<close>

lemma BaseGroup_eq_members:
  "BaseGroup_members g1 = Inr (VSet xs) \<Longrightarrow> BaseGroup_members g2 = Inr (VSet ys) \<Longrightarrow>
   BaseGroup_eq g1 (Some g2) = Inr (cls g1 = cls g2 \<and> set xs = set ys)"
  by (simp add: BaseGroup_eq_def)

lemma hash_items_ints: "hash_items B (map VInt is) = Inr (map (\<lambda>i. hash_val B (VInt i)) is)"
  by (induction "is") (simp_all add: py_hash_def)

lemma BaseGroup_hash_members:
  "BaseGroup_members g = Inr (VSet (map VInt is)) \<Longrightarrow>
   BaseGroup_hash B g =
     Inr (hash_tuple B [hash_type B (cls g), hash_tuple B (map (\<lambda>i. hash_val B (VInt i)) is)])"
  by (simp add: BaseGroup_hash_def hash_items_ints)

text \<open>
  Claim C5 at the groups \<open>ex_G1\<close> and \<open>ex_G2\<close>: they have different ids, the same class and
  the same members 0 and 8, and they are equal. The hash of the first is the hash of
  \<^verbatim>\<open>(CorefGroup, (0, 8))\<close>, the hash of the second that of \<^verbatim>\<open>(CorefGroup, (8, 0))\<close>: two
  different tuples, which a hash of tuples that depends on the order of the items (the
  sample one here, CPython's) tells apart.
\<close>

theorem BaseGroup_equal_groups_hash_by_order:
  "Entry_tid ex_G1 = Inr (VInt 9) \<and> Entry_tid ex_G2 = Inr (VInt 10) \<and>
   cls ex_G1 = ex_CorefGroup \<and> cls ex_G2 = ex_CorefGroup \<and>
   BaseGroup_members ex_G1 = Inr (VSet [VInt 0, VInt 8]) \<and>
   BaseGroup_members ex_G2 = Inr (VSet [VInt 8, VInt 0]) \<and>
   BaseGroup_eq ex_G1 (Some ex_G2) = Inr True \<and>
   BaseGroup_hash B ex_G1 =
     Inr (hash_tuple B [hash_type B ex_CorefGroup,
            hash_tuple B [hash_val B (VInt 0), hash_val B (VInt 8)]]) \<and>
   BaseGroup_hash B ex_G2 =
     Inr (hash_tuple B [hash_type B ex_CorefGroup,
            hash_tuple B [hash_val B (VInt 8), hash_val B (VInt 0)]]) \<and>
   BaseGroup_hash ex_builtins ex_G1 \<noteq> BaseGroup_hash ex_builtins ex_G2"
proof -
  have t: "Entry_tid ex_G1 = Inr (VInt 9)" "Entry_tid ex_G2 = Inr (VInt 10)"
    and c: "cls ex_G1 = ex_CorefGroup" "cls ex_G2 = ex_CorefGroup"
    and m1: "BaseGroup_members ex_G1 = Inr (VSet (map VInt [0, 8]))"
    and m2: "BaseGroup_members ex_G2 = Inr (VSet (map VInt [8, 0]))"
    by (simp_all add: ex_G1_eq ex_G2_eq Entry_tid_def BaseGroup_members_def py_getattr_def)
  have e: "BaseGroup_eq ex_G1 (Some ex_G2) = Inr True"
    using BaseGroup_eq_members [OF m1 m2] by (simp add: c insert_commute)
  have h1: "BaseGroup_hash B ex_G1 =
      Inr (hash_tuple B [hash_type B ex_CorefGroup,
            hash_tuple B [hash_val B (VInt 0), hash_val B (VInt 8)]])" for B
    using BaseGroup_hash_members [OF m1, of B] by (simp add: c)
  have h2: "BaseGroup_hash B ex_G2 =
      Inr (hash_tuple B [hash_type B ex_CorefGroup,
            hash_tuple B [hash_val B (VInt 8), hash_val B (VInt 0)]])" for B
    using BaseGroup_hash_members [OF m2, of B] by (simp add: c)
  have d: "BaseGroup_hash ex_builtins ex_G1 \<noteq> BaseGroup_hash ex_builtins ex_G2"
    by (simp add: h1 h2 ex_builtins_def)
  from t c m1 m2 e h1 h2 d show ?thesis
    by simp
qed

section \<open>Resolving the members of a group\<close>

text \<open>What holds of \<^verbatim>\<open>get_members\<close>: a group whose container reference is \<^verbatim>\<open>None\<close>
  raises the not-attached error, and a group attached to a container that holds all its
  members returns the entries the container resolves the member ids to.\<close>

lemma get_members_pack_None:
  "Entry_pack g = Inr VNone \<Longrightarrow> BaseGroup_get_members h g = Inl ValueError_not_attached"
  by (simp add: BaseGroup_get_members_def)

lemma resolve_members_all:
  "Entry_pack g = Inr (VPack r) \<Longrightarrow> h r = Some c \<Longrightarrow> \<forall>x\<in>set xs. x \<in> dom (entries c) \<Longrightarrow>
   resolve_members h g xs acc = Inr ((\<lambda>x. the (entries c x)) ` set xs \<union> acc)"
  by (induction xs arbitrary: acc) (auto simp: pack_method_def get_entry_def)

lemma get_members_attached:
  "Entry_pack g = Inr (VPack r) \<Longrightarrow> h r = Some c \<Longrightarrow> BaseGroup_members g = Inr (VSet xs) \<Longrightarrow>
   \<forall>x\<in>set xs. x \<in> dom (entries c) \<Longrightarrow>
   BaseGroup_get_members h g = Inr ((\<lambda>x. the (entries c x)) ` set xs)"
  using resolve_members_all [where h = h and r = r and acc = "{}"]
  by (simp add: BaseGroup_get_members_def)

text \<open>Every entry that \<^verbatim>\<open>__getstate__\<close> can serialize comes back from \<^verbatim>\<open>__setstate__\<close>
  without the attribute \<^verbatim>\<open>_Entry__pack\<close>, and \<^verbatim>\<open>get_members\<close> on it raises the attribute
  error.\<close>

lemma get_members_after_roundtrip:
  assumes "Entry_getstate g = Inr st"
  shows "BaseGroup_get_members h (snd (Entry_setstate (py_new (cls g)) st)) =
           Inl (AttributeError (type_name (cls g)) ''_Entry__pack'')"
proof -
  from assms obtain emb l where "attrs g ''_embedding'' = Some emb" "tolist emb = Inr l"
    and st: "st = (attrs g)(''_embedding'' \<mapsto> l, ''_Entry__pack'' := None,
        ''_Entry__field_modified'' := None)"
    by (auto simp: Entry_getstate_def py_getattr_def dict_pop_def
        split: option.splits sum.splits if_splits)
  show ?thesis
    by (simp add: st Entry_setstate_def py_new_def py_setattr_def map_add_def
        BaseGroup_get_members_def Entry_pack_def py_getattr_def)
qed

text \<open>
  Claim C7 at the group of the scenario: \<open>ex_GA\<close> serializes to \<open>ex_GA_state\<close>, and
  \<^verbatim>\<open>__setstate__\<close> on a new instance gives \<open>ex_GA_restored\<close>, which keeps the member id
  but has no attribute \<^verbatim>\<open>_Entry__pack\<close>. On it \<^verbatim>\<open>get_members\<close> fails in the guard
  itself, with the attribute error of the failed lookup of \<^verbatim>\<open>self.__pack\<close>, in every
  heap; the not-attached error is raised only once the reference has been set to
  \<^verbatim>\<open>None\<close>.
\<close>

theorem get_members_after_setstate:
  "Entry_getstate ex_GA = Inr ex_GA_state \<and>
   Entry_setstate (py_new ex_CorefGroup) ex_GA_state = (None, ex_GA_restored) \<and>
   BaseGroup_members ex_GA_restored = Inr (VSet [VInt 1]) \<and>
   Entry_pack ex_GA_restored = Inl (AttributeError ''CorefGroup'' ''_Entry__pack'') \<and>
   BaseGroup_get_members h ex_GA_restored = Inl (AttributeError ''CorefGroup'' ''_Entry__pack'') \<and>
   BaseGroup_get_members h ex_GA_restored \<noteq> Inl ValueError_not_attached \<and>
   BaseGroup_get_members h (Entry_set_pack ex_GA_restored VNone) = Inl ValueError_not_attached"
  by (simp add: ex_GA_getstate ex_GA_restored_eq(1))
     (simp add: ex_GA_restored_eq(2) BaseGroup_get_members_def BaseGroup_members_def
      Entry_pack_def Entry_set_pack_def py_getattr_def py_setattr_def ex_CorefGroup_def)

end
